theory Spec2Isabelle
  imports Complex_Main
begin

section \<open>Python values and exceptions\<close>

text \<open>
  The scheduler of \<^verbatim>\<open>dl_ext/pytorch_ext/optim.py\<close> and the image-info cache of
  \<^verbatim>\<open>dl_ext/vision_ext/datasets/kitti/io/image_info.py\<close> are embedded as HOL functions.
  Python floats are read as real numbers: rounding is not modelled, so every equation
  below is an equation of the exact arithmetic the source writes down. Python
  integers are \<open>int\<close>. An exception is a value \<open>Inl e\<close> of a sum type; each
  constructor of \<open>error\<close> stands for one raise site or one failing primitive.
\<close>

datatype error =
    NotAnOptimizer string \<comment> \<open>the \<^verbatim>\<open>TypeError\<close> of \<^verbatim>\<open>__init__\<close>, with the type name\<close>
  | TypeError \<comment> \<open>\<^verbatim>\<open>/\<close> applied to a list or tuple\<close>
  | ZeroDivisionError
  | ParameterCountMismatch nat string nat
      \<comment> \<open>the \<^verbatim>\<open>ValueError\<close> of \<^verbatim>\<open>_format_param\<close>: expected count, name, actual count\<close>
  | MomentumUnsupported \<comment> \<open>the \<^verbatim>\<open>ValueError\<close> of \<^verbatim>\<open>__init__\<close> on \<^verbatim>\<open>optimizer.defaults\<close>\<close>
  | KeyError string
  | IndexError
  | AttributeError string
  | OSError string

text \<open>
  A parameter group is a dictionary of hyperparameters; the optimizer holds the ordered
  list of its groups and the dictionary \<^verbatim>\<open>defaults\<close>.
\<close>

type_synonym group = "string \<rightharpoonup> real"

record optimizer =
  param_groups :: "group list"
  defaults :: "string \<rightharpoonup> real"

text \<open>What a caller can pass as \<^verbatim>\<open>optimizer\<close>: an \<^verbatim>\<open>Optimizer\<close>, or an object of another type.\<close>

datatype handle = Optimizer optimizer | Other string

text \<open>What a caller can pass as \<^verbatim>\<open>max_lr\<close>, \<^verbatim>\<open>base_momentum\<close>, \<^verbatim>\<open>max_momentum\<close>:
  a number, or a list or tuple of numbers.\<close>

datatype param = Scalar real | Seq "real list"

text \<open>\<^verbatim>\<open>max_lr / div_factor\<close>: a list or tuple has no division, a number divided by zero raises.\<close>

definition py_truediv :: "param \<Rightarrow> real \<Rightarrow> error + param" where
  "py_truediv p d =
     (case p of
        Seq xs \<Rightarrow> Inl TypeError
      | Scalar v \<Rightarrow> if d = 0 then Inl ZeroDivisionError else Inr (Scalar (v / d)))"

text \<open>Division of two numbers.\<close>

definition py_div :: "real \<Rightarrow> real \<Rightarrow> error + real" where
  "py_div a b = (if b = 0 then Inl ZeroDivisionError else Inr (a / b))"

text \<open>\<^verbatim>\<open>for v, group in zip(vs, groups): group[k] = v\<close>: the groups are updated in place,
  those beyond the shorter list stay as they are.\<close>

fun write_field :: "string \<Rightarrow> real list \<Rightarrow> group list \<Rightarrow> group list" where
  "write_field k (v # vs) (g # gs) = (g(k \<mapsto> v)) # write_field k vs gs"
| "write_field k vs gs = gs"

text \<open>\<^verbatim>\<open>list(map(lambda group: group[k], groups))\<close>: a group without the key raises.\<close>

fun read_field :: "string \<Rightarrow> group list \<Rightarrow> error + real list" where
  "read_field k [] = Inr []"
| "read_field k (g # gs) =
     (case g k of
        None \<Rightarrow> Inl (KeyError k)
      | Some v \<Rightarrow> (case read_field k gs of Inl e \<Rightarrow> Inl e | Inr vs \<Rightarrow> Inr (v # vs)))"

section \<open>The one-cycle scheduler\<close>

record scheduler =
  base_lrs :: "real list"
  max_lrs :: "real list"
  step_size_up :: real
  step_size_down :: real
  total_size :: int
  step_ratio :: real
  cycle_momentum :: bool
  base_momentums :: "real list"
  max_momentums :: "real list"
  last_epoch :: int

text \<open>\<^verbatim>\<open>OneCycleScheduler._format_param\<close>.\<close>

definition format_param :: "string \<Rightarrow> optimizer \<Rightarrow> param \<Rightarrow> error + real list" where
  "format_param name optimizer p =
     (case p of
        Seq xs \<Rightarrow>
          if length xs \<noteq> length (param_groups optimizer)
          then Inl (ParameterCountMismatch (length (param_groups optimizer)) name (length xs))
          else Inr xs
      | Scalar v \<Rightarrow> Inr (replicate (length (param_groups optimizer)) v))"

text \<open>
  Modelled from the spec: the inherited initialiser \<^verbatim>\<open>_LRScheduler.__init__\<close> that
  \<^verbatim>\<open>__init__\<close> calls last belongs to the torch library and is not among the sources. The
  spec fixes what it leaves in the scheduler: the per-group state \<open>base_lr[i]\<close> is
  \<open>max_lr[i] / div_factor\<close>, the list \<^verbatim>\<open>__init__\<close> has computed as \<^verbatim>\<open>base_lrs\<close>, and the
  step index starts at 0, or at the resume value when one is supplied.
\<close>

definition LRScheduler_init :: "real list \<Rightarrow> int \<Rightarrow> real list \<times> int" where
  "LRScheduler_init lrs epoch = (lrs, if epoch = - 1 then 0 else epoch)"

text \<open>
  \<^verbatim>\<open>OneCycleScheduler.__init__\<close>. The optimizer is shared with the caller, so the
  constructor returns it next to the scheduler.
\<close>

definition OneCycleScheduler_init ::
  "handle \<Rightarrow> param \<Rightarrow> int \<Rightarrow> real \<Rightarrow> real \<Rightarrow> bool \<Rightarrow> param \<Rightarrow> param \<Rightarrow> int
     \<Rightarrow> error + (scheduler \<times> optimizer)" where
  "OneCycleScheduler_init h max_lr total_steps pct_start div_factor cyc base_momentum
       max_momentum epoch =
     (case h of
        Other tn \<Rightarrow> Inl (NotAnOptimizer tn)
      | Optimizer opt0 \<Rightarrow>
     (case py_truediv max_lr div_factor of Inl e \<Rightarrow> Inl e | Inr start_lr \<Rightarrow>
     (case format_param ''base_lr'' opt0 start_lr of Inl e \<Rightarrow> Inl e | Inr lrs \<Rightarrow>
      let opt1 = (if epoch = - 1
                  then opt0\<lparr>param_groups := write_field ''lr'' lrs (param_groups opt0)\<rparr>
                  else opt0)
      in
     (case format_param ''max_lr'' opt1 max_lr of Inl e \<Rightarrow> Inl e | Inr mlrs \<Rightarrow>
      let up = of_int total_steps * pct_start;
          down = of_int total_steps - up
      in
     (case (if cyc
            then (if ''momentum'' \<notin> dom (defaults opt1) then Inl MomentumUnsupported
                  else (case format_param ''base_momentum'' opt1 base_momentum of
                          Inl e \<Rightarrow> Inl e
                        | Inr bms \<Rightarrow>
                            Inr (if epoch = - 1
                                 then opt1\<lparr>param_groups :=
                                        write_field ''momentum'' bms (param_groups opt1)\<rparr>
                                 else opt1)))
            else Inr opt1)
      of Inl e \<Rightarrow> Inl e | Inr opt2 \<Rightarrow>
     (case read_field ''momentum'' (param_groups opt2) of Inl e \<Rightarrow> Inl e | Inr snapshot \<Rightarrow>
     (case format_param ''max_momentum'' opt2 max_momentum of Inl e \<Rightarrow> Inl e | Inr mms \<Rightarrow>
      let (blrs, idx) = LRScheduler_init lrs epoch
      in Inr (\<lparr>base_lrs = blrs, max_lrs = mlrs, step_size_up = up, step_size_down = down,
               total_size = total_steps, step_ratio = pct_start, cycle_momentum = cyc,
               base_momentums = snapshot, max_momentums = mms, last_epoch = idx\<rparr>,
              opt2))))))))"

text \<open>\<^verbatim>\<open>annealing_cos\<close>.\<close>

definition annealing_cos :: "real \<Rightarrow> real \<Rightarrow> real \<Rightarrow> real" where
  "annealing_cos start end' pct = (let cos_out = cos (pi * pct) + 1 in end' + (start - end') / 2 * cos_out)"

text \<open>The first loop of \<^verbatim>\<open>get_lr\<close>, over \<^verbatim>\<open>zip(self.base_lrs, self.max_lrs)\<close>.\<close>

fun lrs_loop :: "scheduler \<Rightarrow> real \<Rightarrow> (real \<times> real) list \<Rightarrow> error + real list" where
  "lrs_loop self x [] = Inr []"
| "lrs_loop self x ((base_lr, max_lr) # rest) =
     (case (if x \<le> step_ratio self
            then (case py_div (of_int (last_epoch self)) (step_size_up self) of
                    Inl e \<Rightarrow> Inl e
                  | Inr pct \<Rightarrow> Inr (annealing_cos base_lr max_lr pct))
            else (case py_div (of_int (last_epoch self) - step_size_up self) (step_size_down self) of
                    Inl e \<Rightarrow> Inl e
                  | Inr pct \<Rightarrow> Inr (annealing_cos max_lr base_lr pct)))
      of Inl e \<Rightarrow> Inl e
       | Inr lr \<Rightarrow> (case lrs_loop self x rest of Inl e \<Rightarrow> Inl e | Inr lrs \<Rightarrow> Inr (lr # lrs)))"

text \<open>The second loop, over \<^verbatim>\<open>zip(self.base_momentums, self.max_momentums)\<close>.\<close>

fun momentums_loop :: "scheduler \<Rightarrow> real \<Rightarrow> (real \<times> real) list \<Rightarrow> error + real list" where
  "momentums_loop self x [] = Inr []"
| "momentums_loop self x ((base_momentum, max_momentum) # rest) =
     (case (if x \<le> step_ratio self
            then (case py_div (of_int (last_epoch self)) (step_size_up self) of
                    Inl e \<Rightarrow> Inl e
                  | Inr pct \<Rightarrow> Inr (annealing_cos max_momentum base_momentum pct))
            else (case py_div (of_int (last_epoch self) - step_size_up self) (step_size_down self) of
                    Inl e \<Rightarrow> Inl e
                  | Inr pct \<Rightarrow> Inr (annealing_cos base_momentum max_momentum pct)))
      of Inl e \<Rightarrow> Inl e
       | Inr momentum \<Rightarrow>
           (case momentums_loop self x rest of Inl e \<Rightarrow> Inl e | Inr ms \<Rightarrow> Inr (momentum # ms)))"

text \<open>
  \<^verbatim>\<open>OneCycleScheduler.get_lr\<close>: the learning rates are returned, the momentums are written
  into the groups of the optimizer the scheduler holds.
\<close>

definition get_lr :: "scheduler \<Rightarrow> optimizer \<Rightarrow> error + (real list \<times> optimizer)" where
  "get_lr self opt =
     (case py_div (of_int (last_epoch self)) (of_int (total_size self)) of
        Inl e \<Rightarrow> Inl e
      | Inr x \<Rightarrow>
     (case lrs_loop self x (zip (base_lrs self) (max_lrs self)) of
        Inl e \<Rightarrow> Inl e
      | Inr lrs \<Rightarrow>
          if cycle_momentum self
          then (case momentums_loop self x (zip (base_momentums self) (max_momentums self)) of
                  Inl e \<Rightarrow> Inl e
                | Inr momentums \<Rightarrow>
                    Inr (lrs, opt\<lparr>param_groups :=
                                write_field ''momentum'' momentums (param_groups opt)\<rparr>))
          else Inr (lrs, opt)))"

section \<open>The policy in the words of the specification\<close>

text \<open>
  The specification's \<open>cosine_anneal\<close> and its two-phase rule, written from its sentences
  and not from the code, to compare \<^verbatim>\<open>get_lr\<close> with.
\<close>

definition cosine_anneal :: "real \<Rightarrow> real \<Rightarrow> real \<Rightarrow> real" where
  "cosine_anneal start end' pct = end' + (start - end') / 2 * (cos (pi * pct) + 1)"

definition policy_lr :: "real \<Rightarrow> real \<Rightarrow> int \<Rightarrow> int \<Rightarrow> real \<Rightarrow> real \<Rightarrow> real \<Rightarrow> real" where
  "policy_lr base_lr max_lr step_index total_steps pct_start size_up size_down =
     (let x = of_int step_index / of_int total_steps
      in if x \<le> pct_start
         then cosine_anneal base_lr max_lr (of_int step_index / size_up)
         else cosine_anneal max_lr base_lr ((of_int step_index - size_up) / size_down))"

definition policy_momentum :: "real \<Rightarrow> real \<Rightarrow> int \<Rightarrow> int \<Rightarrow> real \<Rightarrow> real \<Rightarrow> real \<Rightarrow> real" where
  "policy_momentum base_momentum max_momentum step_index total_steps pct_start size_up size_down =
     (let x = of_int step_index / of_int total_steps
      in if x \<le> pct_start
         then cosine_anneal max_momentum base_momentum (of_int step_index / size_up)
         else cosine_anneal base_momentum max_momentum ((of_int step_index - size_up) / size_down))"

section \<open>The image-info cache\<close>

text \<open>
  The shape of an image is a tuple of dimensions. An instance of \<^verbatim>\<open>_ImageInfoCache\<close> comes
  from \<^verbatim>\<open>object.__new__\<close> with no attribute; \<^verbatim>\<open>post_init\<close> sets them one after the other,
  so each attribute is there or not.
\<close>

type_synonym shape = "nat list"

record image_info_cache =
  cache_path_attr :: "string option"
  root_attr :: "string option"
  split_attr :: "string option"
  infos_attr :: "shape list option"

text \<open>
  What the code reads and writes outside its arguments: the class attribute
  \<^verbatim>\<open>_ImageInfoCache.instance\<close> and the file system. A pickle file holds a list of shapes,
  or fails to load. \<^verbatim>\<open>load_image_2\<close> belongs to a module of the package that is not among
  the sources: the shape of the array it gives for each image, or its failure, is the
  parameter \<open>image_shape\<close>.
\<close>

record world =
  instance_attr :: "image_info_cache option"
  home :: string
  makedirs_ok :: bool
  open_wb_ok :: bool
  pickles :: "string \<rightharpoonup> error + shape list"
  listing :: "string \<rightharpoonup> nat"
  image_shape :: "string \<Rightarrow> string \<Rightarrow> nat \<Rightarrow> error + shape"

text \<open>\<^verbatim>\<open>os.path.join\<close> of two components.\<close>

definition path_join :: "string \<Rightarrow> string \<Rightarrow> string" where
  "path_join a b =
     (if b \<noteq> [] \<and> hd b = CHR ''/'' then b
      else if a = [] \<or> last a = CHR ''/'' then a @ b
      else a @ ''/'' @ b)"

text \<open>\<^verbatim>\<open>infos[imgid]\<close> on a list: an index below zero is taken from the end of the list,
  and an index that falls outside the list raises.\<close>

definition py_getitem :: "'a list \<Rightarrow> int \<Rightarrow> error + 'a" where
  "py_getitem xs i =
     (if 0 \<le> i \<and> i < int (length xs) then Inr (xs ! nat i)
      else if i < 0 \<and> - int (length xs) \<le> i then Inr (xs ! nat (int (length xs) + i))
      else Inl IndexError)"

text \<open>The loop of \<^verbatim>\<open>load_info\<close> over \<^verbatim>\<open>range(n)\<close>.\<close>

fun img_shapes_loop :: "(nat \<Rightarrow> error + shape) \<Rightarrow> nat list \<Rightarrow> error + shape list" where
  "img_shapes_loop f [] = Inr []"
| "img_shapes_loop f (i # rest) =
     (case f i of
        Inl e \<Rightarrow> Inl e
      | Inr sh \<Rightarrow> (case img_shapes_loop f rest of Inl e \<Rightarrow> Inl e | Inr shs \<Rightarrow> Inr (sh # shs)))"

text \<open>\<^verbatim>\<open>_ImageInfoCache.load_info\<close>, called once \<^verbatim>\<open>cache_path\<close>, \<^verbatim>\<open>root\<close> and \<^verbatim>\<open>split\<close> are set.\<close>

definition load_info :: "string \<Rightarrow> string \<Rightarrow> string \<Rightarrow> world \<Rightarrow> (error + shape list) \<times> world" where
  "load_info cache_path root' split' w =
     (case pickles w cache_path of
        Some content \<Rightarrow> (content, w)
      | None \<Rightarrow>
          (case listing w (path_join (path_join (path_join root' ''object'') split') ''image_2'') of
             None \<Rightarrow> (Inl (OSError ''listdir''), w)
           | Some n \<Rightarrow>
               (case img_shapes_loop (image_shape w root' split') [0..<n] of
                  Inl e \<Rightarrow> (Inl e, w)
                | Inr img_shapes \<Rightarrow>
                    if \<not> open_wb_ok w then (Inl (OSError ''open''), w)
                    else (Inr img_shapes,
                          w\<lparr>pickles := (pickles w)(cache_path \<mapsto> Inr img_shapes)\<rparr>))))"

text \<open>
  \<^verbatim>\<open>_ImageInfoCache.post_init\<close>, on the instance that \<^verbatim>\<open>get_instance\<close> has already stored in
  the class attribute: every attribute it sets is set on that stored instance.
\<close>

definition post_init :: "string \<Rightarrow> string \<Rightarrow> world \<Rightarrow> error option \<times> world" where
  "post_init root' split' w =
     (let cache_dir = home w @ ''/.dl_ext/vision_ext/datasets/kitti/image_info'';
          cache_path = path_join cache_dir (split' @ ''.pkl'');
          set_attrs = (\<lambda>f w. w\<lparr>instance_attr := map_option f (instance_attr w)\<rparr>);
          w1 = set_attrs (\<lambda>c. c\<lparr>cache_path_attr := Some cache_path\<rparr>) w
      in if \<not> makedirs_ok w1 then (Some (OSError ''makedirs''), w1)
         else
           let w2 = set_attrs (\<lambda>c. c\<lparr>root_attr := Some root', split_attr := Some split'\<rparr>) w1
           in (case load_info cache_path root' split' w2 of
                 (Inl e, w3) \<Rightarrow> (Some e, w3)
               | (Inr shs, w3) \<Rightarrow> (None, set_attrs (\<lambda>c. c\<lparr>infos_attr := Some shs\<rparr>) w3)))"

text \<open>\<^verbatim>\<open>_ImageInfoCache.get_instance\<close>.\<close>

definition get_instance :: "string \<Rightarrow> string \<Rightarrow> world \<Rightarrow> (error + image_info_cache) \<times> world" where
  "get_instance root' split' w =
     (case instance_attr w of
        Some c \<Rightarrow> (Inr c, w)
      | None \<Rightarrow>
          (let w0 = w\<lparr>instance_attr :=
                        Some \<lparr>cache_path_attr = None, root_attr = None, split_attr = None,
                              infos_attr = None\<rparr>\<rparr>
           in case post_init root' split' w0 of
                (Some e, w1) \<Rightarrow> (Inl e, w1)
              | (None, w1) \<Rightarrow>
                  (case instance_attr w1 of
                     None \<Rightarrow> (Inl (AttributeError ''instance''), w1)
                   | Some c \<Rightarrow> (Inr c, w1))))"

text \<open>\<^verbatim>\<open>load_image_info\<close>, for an \<^verbatim>\<open>imgid\<close> that is an integer already.\<close>

definition load_image_info :: "string \<Rightarrow> string \<Rightarrow> int \<Rightarrow> world \<Rightarrow> (error + shape) \<times> world" where
  "load_image_info kitti_root split' imgid w =
     (case get_instance kitti_root split' w of
        (Inl e, w1) \<Rightarrow> (Inl e, w1)
      | (Inr img_info, w1) \<Rightarrow>
          (case infos_attr img_info of
             None \<Rightarrow> (Inl (AttributeError ''infos''), w1)
           | Some infos \<Rightarrow> (py_getitem infos imgid, w1)))"

section \<open>Example configurations\<close>

text \<open>An optimizer with two parameter groups that carry a momentum, as \<^verbatim>\<open>SGD\<close> builds them.\<close>

definition sgd_group :: group where
  "sgd_group = [''lr'' \<mapsto> 1 / 100, ''momentum'' \<mapsto> 9 / 10]"

definition sgd2 :: optimizer where
  "sgd2 = \<lparr>param_groups = [sgd_group, sgd_group],
           defaults = [''lr'' \<mapsto> 1 / 100, ''momentum'' \<mapsto> 9 / 10]\<rparr>"

text \<open>A scheduler for these two groups, in the middle of the ramp-down and at its first step.\<close>

definition sched50 :: scheduler where
  "sched50 = \<lparr>base_lrs = [4 / 1000, 4 / 1000], max_lrs = [1 / 10, 1 / 10], step_size_up = 30,
               step_size_down = 70, total_size = 100, step_ratio = 3 / 10, cycle_momentum = True,
               base_momentums = [85 / 100, 85 / 100], max_momentums = [95 / 100, 95 / 100],
               last_epoch = 50\<rparr>"

definition sched0 :: scheduler where
  "sched0 = \<lparr>base_lrs = [4 / 1000, 4 / 1000], max_lrs = [1 / 10, 1 / 10], step_size_up = 30,
               step_size_down = 70, total_size = 100, step_ratio = 3 / 10, cycle_momentum = True,
               base_momentums = [85 / 100, 85 / 100], max_momentums = [95 / 100, 95 / 100],
               last_epoch = 0\<rparr>"

text \<open>An optimizer whose groups carry no momentum and whose \<^verbatim>\<open>defaults\<close> has none, as
  \<^verbatim>\<open>Adam\<close> builds them.\<close>

definition adam_group :: group where
  "adam_group = [''lr'' \<mapsto> 1 / 1000]"

definition adam2 :: optimizer where
  "adam2 = \<lparr>param_groups = [adam_group, adam_group], defaults = [''lr'' \<mapsto> 1 / 1000]\<rparr>"

text \<open>What the specification says of a parameter given as a scalar or as a sequence: it
  fits \<open>n\<close> groups when it is a scalar or has \<open>n\<close> entries, and its per-group values are
  the scalar repeated or the entries themselves.\<close>

definition fits :: "nat \<Rightarrow> param \<Rightarrow> bool" where
  "fits n p = (case p of Scalar v \<Rightarrow> True | Seq xs \<Rightarrow> length xs = n)"

definition broadcast :: "nat \<Rightarrow> param \<Rightarrow> real list" where
  "broadcast n p = (case p of Scalar v \<Rightarrow> replicate n v | Seq xs \<Rightarrow> xs)"

text \<open>A machine on which nothing is cached yet and the training split has two images.\<close>

definition kitti_world :: world where
  "kitti_world = \<lparr>instance_attr = None, home = ''/home/u'', makedirs_ok = True,
     open_wb_ok = True, pickles = Map.empty,
     listing = [''/data/object/training/image_2'' \<mapsto> 2],
     image_shape = (\<lambda>r s i. Inr [375, 1242 + i, 3])\<rparr>"

section \<open>Auxiliary facts\<close>

lemma annealing_cos_spec: "annealing_cos s e p = cosine_anneal s e p"
  by (simp add: annealing_cos_def cosine_anneal_def)

lemma sizes_pos:
  assumes "0 < total_size self" "0 < step_ratio self" "step_ratio self < 1"
    and "step_size_up self = of_int (total_size self) * step_ratio self"
    and "step_size_down self = of_int (total_size self) - step_size_up self"
  shows "0 < step_size_up self" and "0 < step_size_down self"
proof -
  have T: "0 < (of_int (total_size self) :: real)" using assms(1) by simp
  show "0 < step_size_up self" using T assms(2,4) by simp
  have "of_int (total_size self) * step_ratio self < of_int (total_size self) * 1"
    using T assms(3) by (simp only: mult_less_cancel_left_pos)
  then show "0 < step_size_down self" using assms(4,5) by simp
qed

lemma lrs_loop_Inr:
  assumes "step_size_up self \<noteq> 0" "step_size_down self \<noteq> 0"
  shows "lrs_loop self x zs =
     Inr (map (\<lambda>(b, m). if x \<le> step_ratio self
                 then cosine_anneal b m (of_int (last_epoch self) / step_size_up self)
                 else cosine_anneal m b ((of_int (last_epoch self) - step_size_up self) / step_size_down self)) zs)"
  using assms by (induction zs) (auto simp: py_div_def annealing_cos_spec)

lemma momentums_loop_Inr:
  assumes "step_size_up self \<noteq> 0" "step_size_down self \<noteq> 0"
  shows "momentums_loop self x zs =
     Inr (map (\<lambda>(b, m). if x \<le> step_ratio self
                 then cosine_anneal m b (of_int (last_epoch self) / step_size_up self)
                 else cosine_anneal b m ((of_int (last_epoch self) - step_size_up self) / step_size_down self)) zs)"
  using assms by (induction zs) (auto simp: py_div_def annealing_cos_spec)

lemma lrs_loop_policy:
  assumes "step_size_up self \<noteq> 0" "step_size_down self \<noteq> 0" "total_size self \<noteq> 0"
  shows "lrs_loop self (of_int (last_epoch self) / of_int (total_size self)) zs =
     Inr (map (\<lambda>(b, m). policy_lr b m (last_epoch self) (total_size self) (step_ratio self)
                 (step_size_up self) (step_size_down self)) zs)"
  by (simp add: lrs_loop_Inr [OF assms(1,2)] policy_lr_def)

lemma momentums_loop_policy:
  assumes "step_size_up self \<noteq> 0" "step_size_down self \<noteq> 0" "total_size self \<noteq> 0"
  shows "momentums_loop self (of_int (last_epoch self) / of_int (total_size self)) zs =
     Inr (map (\<lambda>(b, m). policy_momentum b m (last_epoch self) (total_size self) (step_ratio self)
                 (step_size_up self) (step_size_down self)) zs)"
  by (simp add: momentums_loop_Inr [OF assms(1,2)] policy_momentum_def)

lemma write_field_length [simp]: "length (write_field k vs gs) = length gs"
  by (induction k vs gs rule: write_field.induct) simp_all

lemma write_field_nth:
  "i < length gs \<Longrightarrow> length vs = length gs \<Longrightarrow> write_field k vs gs ! i = (gs ! i)(k \<mapsto> vs ! i)"
proof (induction k vs gs arbitrary: i rule: write_field.induct)
  case (1 k v vs g gs)
  then show ?case by (cases i) simp_all
qed simp_all

lemma read_write_field:
  "length vs = length gs \<Longrightarrow> read_field k (write_field k vs gs) = Inr vs"
  by (induction k vs gs rule: write_field.induct) simp_all

lemma read_field_nth:
  "read_field k gs = Inr vs \<Longrightarrow> length vs = length gs \<and> (\<forall>i < length gs. (gs ! i) k = Some (vs ! i))"
proof (induction gs arbitrary: vs)
  case Nil
  then show ?case by simp
next
  case (Cons g gs)
  then show ?case
    by (auto split: option.splits sum.splits simp: nth_Cons')
qed

lemma read_field_missing:
  "g \<in> set gs \<Longrightarrow> g k = None \<Longrightarrow> read_field k gs = Inl (KeyError k)"
  by (induction gs) (auto split: option.splits sum.splits)

lemma get_lr_policy:
  assumes "step_size_up self \<noteq> 0" "step_size_down self \<noteq> 0" "total_size self \<noteq> 0"
  shows "get_lr self opt =
     Inr (map (\<lambda>(b, m). policy_lr b m (last_epoch self) (total_size self) (step_ratio self)
                 (step_size_up self) (step_size_down self)) (zip (base_lrs self) (max_lrs self)),
          if cycle_momentum self
          then opt\<lparr>param_groups := write_field ''momentum''
                 (map (\<lambda>(b, m). policy_momentum b m (last_epoch self) (total_size self)
                         (step_ratio self) (step_size_up self) (step_size_down self))
                    (zip (base_momentums self) (max_momentums self)))
                 (param_groups opt)\<rparr>
          else opt)"
  using assms(3)
  by (simp add: get_lr_def py_div_def lrs_loop_policy [OF assms] momentums_loop_policy [OF assms])

lemma policy_lr_start:
  "0 < T \<Longrightarrow> 0 < p \<Longrightarrow> policy_lr b m 0 T p up down = b"
  by (simp add: policy_lr_def cosine_anneal_def field_simps)

lemma policy_lr_peak:
  "0 < T \<Longrightarrow> 0 < p \<Longrightarrow> of_int k = of_int T * p \<Longrightarrow> up = of_int T * p
     \<Longrightarrow> policy_lr b m k T p up down = m"
  by (simp add: policy_lr_def cosine_anneal_def)

lemma policy_lr_end:
  "0 < T \<Longrightarrow> 0 < p \<Longrightarrow> p < 1 \<Longrightarrow> up = of_int T * p \<Longrightarrow> down = of_int T - up
     \<Longrightarrow> policy_lr b m T T p up down = b"
proof -
  assume a: "0 < T" "0 < p" "p < 1" "up = of_int T * p" "down = of_int T - up"
  have T: "0 < (of_int T :: real)" using a(1) by simp
  have "of_int T * p < of_int T * 1" using T a(3) by (simp only: mult_less_cancel_left_pos)
  then have "up < of_int T" using a(4) by simp
  then have d: "down \<noteq> 0" using a(5) by simp
  have one: "(of_int T - up) / down = 1" using d a(5) by simp
  have x: "\<not> (of_int T / of_int T \<le> p)" using T a(3) by simp
  show ?thesis unfolding policy_lr_def Let_def using x one by (simp add: cosine_anneal_def)
qed

lemma init_args:
  assumes "OneCycleScheduler_init h max_lr total_steps pct_start div_factor cyc bm mm epoch
             = Inr r"
  obtains opt0 m where "h = Optimizer opt0" "max_lr = Scalar m" "div_factor \<noteq> 0"
  using assms
  by (cases h; cases max_lr; cases "div_factor = 0")
     (simp_all add: OneCycleScheduler_init_def py_truediv_def)

lemma init_fields:
  assumes "OneCycleScheduler_init (Optimizer opt0) (Scalar m) total_steps pct_start div_factor
             cyc bm mm epoch = Inr (self, opt)"
  shows "base_lrs self = replicate (length (param_groups opt0)) (m / div_factor)"
    and "max_lrs self = replicate (length (param_groups opt0)) m"
    and "step_size_up self = of_int total_steps * pct_start"
    and "step_size_down self = of_int total_steps - step_size_up self"
    and "total_size self = total_steps"
    and "step_ratio self = pct_start"
    and "cycle_momentum self = cyc"
    and "length (param_groups opt) = length (param_groups opt0)"
    and "defaults opt = defaults opt0"
    and "read_field ''momentum'' (param_groups opt) = Inr (base_momentums self)"
    and "format_param ''max_momentum'' opt0 mm = Inr (max_momentums self)"
  using assms
  by (auto simp: OneCycleScheduler_init_def py_truediv_def format_param_def LRScheduler_init_def
        Let_def split: param.splits sum.splits if_splits)

lemma init_sizes:
  assumes "OneCycleScheduler_init h max_lr total_steps pct_start div_factor cyc bm mm epoch
             = Inr (self, opt)"
    and "0 < total_steps" "0 < pct_start" "pct_start < 1"
  shows "step_size_up self \<noteq> 0" "step_size_down self \<noteq> 0" "total_size self \<noteq> 0"
proof -
  from assms(1) obtain opt0 m where hm: "h = Optimizer opt0" "max_lr = Scalar m"
    by (rule init_args)
  note g = init_fields [OF assms(1) [unfolded hm]]
  have f: "step_size_up self = of_int (total_size self) * step_ratio self"
    "step_size_down self = of_int (total_size self) - step_size_up self"
    "total_size self = total_steps" "step_ratio self = pct_start"
    using g(3-6) by simp_all
  have p: "0 < total_size self" "0 < step_ratio self" "step_ratio self < 1"
    using f(3,4) assms(2-4) by simp_all
  from sizes_pos [OF p f(1,2)] show "step_size_up self \<noteq> 0" "step_size_down self \<noteq> 0" by simp_all
  show "total_size self \<noteq> 0" using p(1) by simp
qed

lemma valid_sizes:
  assumes "0 < total_size self" "0 < step_ratio self" "step_ratio self < 1"
    and "step_size_up self = of_int (total_size self) * step_ratio self"
    and "step_size_down self = of_int (total_size self) - step_size_up self"
  shows "step_size_up self \<noteq> 0" "step_size_down self \<noteq> 0" "total_size self \<noteq> 0"
  using sizes_pos [OF assms] assms(1) by simp_all

lemma write_field_idem:
  "length vs = length gs \<Longrightarrow>
     write_field k vs gs = gs \<longleftrightarrow> (\<forall>i < length gs. (gs ! i) k = Some (vs ! i))"
proof (induction k vs gs rule: write_field.induct)
  case (1 k v vs g gs)
  have "(g(k \<mapsto> v) = g) = (g k = Some v)" by (rule fun_upd_idem_iff)
  with 1 show ?case by (auto simp: nth_Cons' All_less_Suc2 split: if_splits)
qed simp_all

section \<open>The learning rate at the ends of the two phases\<close>

text \<open>
  C1. After a fresh construction (\<^verbatim>\<open>last_epoch = -1\<close>) with \<open>total_steps > 0\<close>,
  \<open>0 < pct_start < 1\<close> and \<open>div_factor > 0\<close>, the base learning rate of every group is
  its maximal rate divided by \<open>div_factor\<close>, and \<^verbatim>\<open>get_lr\<close> returns the base rates at
  step index 0, the maximal rates at a step index equal to \<open>step_size_up\<close> (the ramp-up
  branch is taken there) and the base rates again at step index \<open>total_steps\<close>. The
  scenario of the specification, two groups with \<open>max_lr = 0.1\<close>, \<open>total_steps = 100\<close>,
  \<open>pct_start = 0.3\<close>, \<open>div_factor = 25\<close>, is the instance that follows the theorem.
\<close>

theorem one_cycle_endpoints:
  assumes init: "OneCycleScheduler_init h max_lr total_steps pct_start div_factor cyc bm mm (- 1)
                   = Inr (self, opt)"
    and cfg: "0 < total_steps" "0 < pct_start" "pct_start < 1" "0 < div_factor"
  shows "base_lrs self = map (\<lambda>m. m / div_factor) (max_lrs self)
     \<and> (\<exists>opt'. get_lr (self\<lparr>last_epoch := 0\<rparr>) opt = Inr (base_lrs self, opt'))
     \<and> (\<forall>k. of_int k = step_size_up self \<longrightarrow>
           (\<exists>opt'. get_lr (self\<lparr>last_epoch := k\<rparr>) opt = Inr (max_lrs self, opt')))
     \<and> (\<exists>opt'. get_lr (self\<lparr>last_epoch := total_steps\<rparr>) opt = Inr (base_lrs self, opt'))"
proof -
  from init obtain opt0 m where hm: "h = Optimizer opt0" "max_lr = Scalar m"
    by (rule init_args)
  note f = init_fields [OF init [unfolded hm]]
  note nz = init_sizes [OF init cfg(1-3)]
  let ?n = "length (param_groups opt0)"
  have pol: "\<And>k. \<exists>opt'. get_lr (self\<lparr>last_epoch := k\<rparr>) opt =
      Inr (replicate ?n (policy_lr (m / div_factor) m k total_steps pct_start
             (step_size_up self) (step_size_down self)), opt')"
  proof -
    fix k
    let ?s = "self\<lparr>last_epoch := k\<rparr>"
    have nz': "step_size_up ?s \<noteq> 0" "step_size_down ?s \<noteq> 0" "total_size ?s \<noteq> 0"
      using nz by simp_all
    show "\<exists>opt'. get_lr ?s opt = Inr (replicate ?n (policy_lr (m / div_factor) m k total_steps pct_start
             (step_size_up self) (step_size_down self)), opt')"
      unfolding get_lr_policy [OF nz', of opt]
      by (simp add: f(1,2,5,6) zip_replicate map_replicate_const)
  qed
  have a: "base_lrs self = map (\<lambda>m. m / div_factor) (max_lrs self)"
    by (simp add: f(1,2))
  have b: "\<exists>opt'. get_lr (self\<lparr>last_epoch := 0\<rparr>) opt = Inr (base_lrs self, opt')"
    using pol [of 0] by (simp only: policy_lr_start [OF cfg(1,2)] f(1))
  have c: "\<exists>opt'. get_lr (self\<lparr>last_epoch := k\<rparr>) opt = Inr (max_lrs self, opt')"
    if "of_int k = step_size_up self" for k
  proof -
    have k: "of_int k = of_int total_steps * pct_start" using that f(3) by simp
    show ?thesis
      using pol [of k] by (simp only: policy_lr_peak [OF cfg(1,2) k f(3)] f(2))
  qed
  have d: "\<exists>opt'. get_lr (self\<lparr>last_epoch := total_steps\<rparr>) opt = Inr (base_lrs self, opt')"
    using pol [of total_steps]
    by (simp only: policy_lr_end [OF cfg(1-3) f(3,4)] f(1))
  from a b c d show ?thesis by blast
qed

theorem one_cycle_endpoints_witness:
  "\<exists>self opt.
     OneCycleScheduler_init (Optimizer sgd2) (Scalar (1 / 10)) 100 (3 / 10) 25 True
       (Scalar (85 / 100)) (Scalar (95 / 100)) (- 1) = Inr (self, opt)
     \<and> base_lrs self = [4 / 1000, 4 / 1000]
     \<and> (\<exists>opt'. get_lr (self\<lparr>last_epoch := 0\<rparr>) opt = Inr ([4 / 1000, 4 / 1000], opt'))
     \<and> (\<exists>opt'. get_lr (self\<lparr>last_epoch := 30\<rparr>) opt = Inr ([1 / 10, 1 / 10], opt'))
     \<and> (\<exists>opt'. get_lr (self\<lparr>last_epoch := 100\<rparr>) opt = Inr ([4 / 1000, 4 / 1000], opt'))"
proof -
  have "\<exists>self opt. OneCycleScheduler_init (Optimizer sgd2) (Scalar (1 / 10)) 100 (3 / 10) 25 True
       (Scalar (85 / 100)) (Scalar (95 / 100)) (- 1) = Inr (self, opt)"
    by (simp add: OneCycleScheduler_init_def py_truediv_def format_param_def LRScheduler_init_def
          sgd2_def sgd_group_def)
  then obtain self opt where i: "OneCycleScheduler_init (Optimizer sgd2) (Scalar (1 / 10)) 100 (3 / 10) 25 True
       (Scalar (85 / 100)) (Scalar (95 / 100)) (- 1) = Inr (self, opt)"
    by blast
  have bl: "base_lrs self = [4 / 1000, 4 / 1000]"
    using init_fields(1) [OF i] by (simp add: sgd2_def)
  have ml: "max_lrs self = [1 / 10, 1 / 10]"
    using init_fields(2) [OF i] by (simp add: sgd2_def)
  have up: "of_int 30 = step_size_up self"
    using init_fields(3) [OF i] by simp
  have cfg: "(0::int) < 100" "(0::real) < 3 / 10" "(3 / 10 :: real) < 1" "(0::real) < 25"
    by simp_all
  from one_cycle_endpoints [OF i cfg] up
  show ?thesis
    using i bl ml by auto
qed

section \<open>The two-phase policy\<close>

text \<open>
  C3. For a scheduler with \<open>total_steps > 0\<close>, \<open>0 < pct_start < 1\<close> and the step sizes the
  constructor derives, \<^verbatim>\<open>get_lr\<close> returns at every step index, so also at every one from 0
  to \<open>total_steps\<close>, one learning rate per group, and the rate of group \<open>i\<close> is the
  specification's two-phase rule: with \<open>x = step_index / total_steps\<close>, the cosine anneal
  from \<open>base_lr[i]\<close> to \<open>max_lr[i]\<close> at \<open>step_index / step_size_up\<close> when
  \<open>x \<le> pct_start\<close>, and the one from \<open>max_lr[i]\<close> to \<open>base_lr[i]\<close> at
  \<open>(step_index - step_size_up) / step_size_down\<close> otherwise.
\<close>

theorem get_lr_two_phase_policy:
  assumes "0 < total_size self" "0 < step_ratio self" "step_ratio self < 1"
    and "step_size_up self = of_int (total_size self) * step_ratio self"
    and "step_size_down self = of_int (total_size self) - step_size_up self"
    and len: "length (max_lrs self) = length (base_lrs self)"
  shows "\<exists>lrs opt'. get_lr self opt = Inr (lrs, opt')
     \<and> length lrs = length (base_lrs self)
     \<and> (\<forall>i < length (base_lrs self).
           lrs ! i = policy_lr (base_lrs self ! i) (max_lrs self ! i) (last_epoch self)
                       (total_size self) (step_ratio self) (step_size_up self)
                       (step_size_down self))"
proof -
  note nz = valid_sizes [OF assms(1-5)]
  show ?thesis
    unfolding get_lr_policy [OF nz, of opt] using len by simp
qed

theorem get_lr_two_phase_policy_witness:
  "0 < total_size sched50 \<and> 0 < step_ratio sched50 \<and> step_ratio sched50 < 1
   \<and> step_size_up sched50 = of_int (total_size sched50) * step_ratio sched50
   \<and> step_size_down sched50 = of_int (total_size sched50) - step_size_up sched50
   \<and> length (max_lrs sched50) = length (base_lrs sched50)
   \<and> (\<exists>lrs opt'. get_lr sched50 sgd2 = Inr (lrs, opt') \<and> length lrs = 2
        \<and> lrs ! 0 = cosine_anneal (1 / 10) (4 / 1000) (20 / 70)
        \<and> lrs ! 1 = cosine_anneal (1 / 10) (4 / 1000) (20 / 70))"
proof -
  have h: "0 < total_size sched50" "0 < step_ratio sched50" "step_ratio sched50 < 1"
    "step_size_up sched50 = of_int (total_size sched50) * step_ratio sched50"
    "step_size_down sched50 = of_int (total_size sched50) - step_size_up sched50"
    "length (max_lrs sched50) = length (base_lrs sched50)"
    by (simp_all add: sched50_def)
  from get_lr_two_phase_policy [OF h, of sgd2] obtain lrs opt' where
    r: "get_lr sched50 sgd2 = Inr (lrs, opt')" "length lrs = length (base_lrs sched50)"
       "\<forall>i < length (base_lrs sched50).
           lrs ! i = policy_lr (base_lrs sched50 ! i) (max_lrs sched50 ! i) (last_epoch sched50)
                       (total_size sched50) (step_ratio sched50) (step_size_up sched50)
                       (step_size_down sched50)"
    by blast
  have "lrs ! 0 = cosine_anneal (1 / 10) (4 / 1000) (20 / 70)"
    using r(3) by (simp add: sched50_def policy_lr_def)
  moreover have "lrs ! 1 = cosine_anneal (1 / 10) (4 / 1000) (20 / 70)"
    using r(3) by (simp add: sched50_def policy_lr_def)
  moreover have "length lrs = 2" using r(2) by (simp add: sched50_def)
  ultimately show ?thesis using h r(1) by blast
qed

section \<open>Momentum\<close>

text \<open>
  C4. With \<^verbatim>\<open>cycle_momentum\<close> set, \<^verbatim>\<open>get_lr\<close> anneals the momentum of group \<open>i\<close> in
  the direction opposite to the learning rate, from \<open>max_momentum[i]\<close> to
  \<open>base_momentum[i]\<close> during the ramp-up and back during the ramp-down, and stores it in
  the \<^verbatim>\<open>momentum\<close> entry of group \<open>i\<close>, leaving the other entries, the number and order
  of the groups and \<^verbatim>\<open>defaults\<close> as they were. The list it returns holds the learning
  rates and nothing else: its entry \<open>i\<close> is the learning rate of the two-phase rule for
  \<open>base_lr[i]\<close> and \<open>max_lr[i]\<close>, it has one entry for each pair of these, so one per
  group when there is a base and a maximal rate for every group, and it is the list
  returned with \<^verbatim>\<open>cycle_momentum\<close> unset, where the optimizer is not touched.
\<close>

theorem get_lr_momentum_inverted:
  assumes "0 < total_size self" "0 < step_ratio self" "step_ratio self < 1"
    and "step_size_up self = of_int (total_size self) * step_ratio self"
    and "step_size_down self = of_int (total_size self) - step_size_up self"
    and cyc: "cycle_momentum self"
    and len: "length (base_momentums self) = length (param_groups opt)"
             "length (max_momentums self) = length (param_groups opt)"
  shows "\<exists>lrs opt'. get_lr self opt = Inr (lrs, opt')
     \<and> length lrs = min (length (base_lrs self)) (length (max_lrs self))
     \<and> (\<forall>i < length lrs.
           lrs ! i = policy_lr (base_lrs self ! i) (max_lrs self ! i) (last_epoch self)
                       (total_size self) (step_ratio self) (step_size_up self)
                       (step_size_down self))
     \<and> (length (base_lrs self) = length (param_groups opt)
          \<and> length (max_lrs self) = length (param_groups opt)
          \<longrightarrow> length lrs = length (param_groups opt))
     \<and> get_lr (self\<lparr>cycle_momentum := False\<rparr>) opt = Inr (lrs, opt)
     \<and> defaults opt' = defaults opt
     \<and> length (param_groups opt') = length (param_groups opt)
     \<and> (\<forall>i < length (param_groups opt).
           param_groups opt' ! i =
             (param_groups opt ! i)(''momentum'' \<mapsto>
                policy_momentum (base_momentums self ! i) (max_momentums self ! i)
                  (last_epoch self) (total_size self) (step_ratio self) (step_size_up self)
                  (step_size_down self)))"
proof -
  note nz = valid_sizes [OF assms(1-5)]
  have nz': "step_size_up (self\<lparr>cycle_momentum := False\<rparr>) \<noteq> 0"
    "step_size_down (self\<lparr>cycle_momentum := False\<rparr>) \<noteq> 0"
    "total_size (self\<lparr>cycle_momentum := False\<rparr>) \<noteq> 0"
    using nz by simp_all
  show ?thesis
    unfolding get_lr_policy [OF nz, of opt] get_lr_policy [OF nz', of opt]
    using cyc len by (simp add: write_field_nth)
qed

theorem get_lr_momentum_inverted_witness:
  "0 < total_size sched50 \<and> 0 < step_ratio sched50 \<and> step_ratio sched50 < 1
   \<and> step_size_up sched50 = of_int (total_size sched50) * step_ratio sched50
   \<and> step_size_down sched50 = of_int (total_size sched50) - step_size_up sched50
   \<and> cycle_momentum sched50
   \<and> length (base_momentums sched50) = length (param_groups sgd2)
   \<and> length (max_momentums sched50) = length (param_groups sgd2)
   \<and> length (base_lrs sched50) = length (param_groups sgd2)
   \<and> length (max_lrs sched50) = length (param_groups sgd2)
   \<and> (\<exists>lrs opt'. get_lr sched50 sgd2 = Inr (lrs, opt')
        \<and> lrs = [cosine_anneal (1 / 10) (4 / 1000) (20 / 70),
                  cosine_anneal (1 / 10) (4 / 1000) (20 / 70)]
        \<and> get_lr (sched50\<lparr>cycle_momentum := False\<rparr>) sgd2 = Inr (lrs, sgd2)
        \<and> param_groups opt' ! 0 =
            sgd_group(''momentum'' \<mapsto> cosine_anneal (85 / 100) (95 / 100) (20 / 70))
        \<and> param_groups opt' ! 1 =
            sgd_group(''momentum'' \<mapsto> cosine_anneal (85 / 100) (95 / 100) (20 / 70)))"
proof -
  have h: "0 < total_size sched50" "0 < step_ratio sched50" "step_ratio sched50 < 1"
    "step_size_up sched50 = of_int (total_size sched50) * step_ratio sched50"
    "step_size_down sched50 = of_int (total_size sched50) - step_size_up sched50"
    "cycle_momentum sched50"
    "length (base_momentums sched50) = length (param_groups sgd2)"
    "length (max_momentums sched50) = length (param_groups sgd2)"
    by (simp_all add: sched50_def sgd2_def)
  have g: "length (base_lrs sched50) = length (param_groups sgd2)"
    "length (max_lrs sched50) = length (param_groups sgd2)"
    by (simp_all add: sched50_def sgd2_def)
  from get_lr_momentum_inverted [OF h] obtain lrs opt' where
    r: "get_lr sched50 sgd2 = Inr (lrs, opt')"
       "length lrs = min (length (base_lrs sched50)) (length (max_lrs sched50))"
       "\<forall>i < length lrs.
           lrs ! i = policy_lr (base_lrs sched50 ! i) (max_lrs sched50 ! i) (last_epoch sched50)
                       (total_size sched50) (step_ratio sched50) (step_size_up sched50)
                       (step_size_down sched50)"
       "get_lr (sched50\<lparr>cycle_momentum := False\<rparr>) sgd2 = Inr (lrs, sgd2)"
       "\<forall>i < length (param_groups sgd2).
           param_groups opt' ! i =
             (param_groups sgd2 ! i)(''momentum'' \<mapsto>
                policy_momentum (base_momentums sched50 ! i) (max_momentums sched50 ! i)
                  (last_epoch sched50) (total_size sched50) (step_ratio sched50)
                  (step_size_up sched50) (step_size_down sched50))"
    by blast
  have l: "length lrs = 2" using r(2) by (simp add: sched50_def)
  have e0: "lrs ! 0 = cosine_anneal (1 / 10) (4 / 1000) (20 / 70)"
    using r(3) [rule_format, of 0] l by (simp add: sched50_def policy_lr_def)
  have e1: "lrs ! 1 = cosine_anneal (1 / 10) (4 / 1000) (20 / 70)"
    using r(3) [rule_format, of 1] l by (simp add: sched50_def policy_lr_def)
  have lrs: "lrs = [cosine_anneal (1 / 10) (4 / 1000) (20 / 70),
                  cosine_anneal (1 / 10) (4 / 1000) (20 / 70)]"
    using l e0 e1 by (cases lrs; cases "tl lrs") auto
  have "param_groups opt' ! 0 =
            sgd_group(''momentum'' \<mapsto> cosine_anneal (85 / 100) (95 / 100) (20 / 70))"
    using r(5) by (simp add: sched50_def sgd2_def policy_momentum_def)
  moreover have "param_groups opt' ! 1 =
            sgd_group(''momentum'' \<mapsto> cosine_anneal (85 / 100) (95 / 100) (20 / 70))"
    using r(5) by (simp add: sched50_def sgd2_def policy_momentum_def)
  ultimately show ?thesis using h g r(1,4) lrs by blast
qed

text \<open>
  C10. With \<^verbatim>\<open>cycle_momentum\<close> set, every call of \<^verbatim>\<open>get_lr\<close> returns and leaves in every
  group the momentum of the current step index; the optimizer comes out as it went in
  only when every group held exactly that momentum already. \<^verbatim>\<open>get_lr\<close> does not advance
  the step index, so a call that only reads the rates changes the optimizer all the same.
\<close>

theorem get_lr_writes_momentum:
  assumes "0 < total_size self" "0 < step_ratio self" "step_ratio self < 1"
    and "step_size_up self = of_int (total_size self) * step_ratio self"
    and "step_size_down self = of_int (total_size self) - step_size_up self"
    and cyc: "cycle_momentum self"
    and len: "length (base_momentums self) = length (param_groups opt)"
             "length (max_momentums self) = length (param_groups opt)"
  shows "\<exists>lrs opt'. get_lr self opt = Inr (lrs, opt')
     \<and> (\<forall>i < length (param_groups opt).
           (param_groups opt' ! i) ''momentum'' =
             Some (policy_momentum (base_momentums self ! i) (max_momentums self ! i)
                     (last_epoch self) (total_size self) (step_ratio self) (step_size_up self)
                     (step_size_down self)))
     \<and> (opt' = opt \<longleftrightarrow>
          (\<forall>i < length (param_groups opt).
             (param_groups opt ! i) ''momentum'' =
               Some (policy_momentum (base_momentums self ! i) (max_momentums self ! i)
                       (last_epoch self) (total_size self) (step_ratio self)
                       (step_size_up self) (step_size_down self))))"
proof -
  note nz = valid_sizes [OF assms(1-5)]
  let ?ms = "map (\<lambda>(b, m). policy_momentum b m (last_epoch self) (total_size self)
                         (step_ratio self) (step_size_up self) (step_size_down self))
                    (zip (base_momentums self) (max_momentums self))"
  have l: "length ?ms = length (param_groups opt)" using len by simp
  have eq: "(opt\<lparr>param_groups := write_field ''momentum'' ?ms (param_groups opt)\<rparr> = opt)
      = (write_field ''momentum'' ?ms (param_groups opt) = param_groups opt)"
    by (cases opt) simp
  show ?thesis
    unfolding get_lr_policy [OF nz, of opt]
    using cyc len by (simp add: write_field_nth eq write_field_idem [OF l])
qed

theorem get_lr_writes_momentum_witness:
  "0 < total_size sched0 \<and> 0 < step_ratio sched0 \<and> step_ratio sched0 < 1
   \<and> step_size_up sched0 = of_int (total_size sched0) * step_ratio sched0
   \<and> step_size_down sched0 = of_int (total_size sched0) - step_size_up sched0
   \<and> cycle_momentum sched0
   \<and> length (base_momentums sched0) = length (param_groups sgd2)
   \<and> length (max_momentums sched0) = length (param_groups sgd2)
   \<and> (\<exists>lrs opt'. get_lr sched0 sgd2 = Inr (lrs, opt')
        \<and> (param_groups opt' ! 0) ''momentum'' = Some (95 / 100)
        \<and> (param_groups opt' ! 1) ''momentum'' = Some (95 / 100)
        \<and> (param_groups sgd2 ! 0) ''momentum'' = Some (9 / 10)
        \<and> opt' \<noteq> sgd2)"
proof -
  have h: "0 < total_size sched0" "0 < step_ratio sched0" "step_ratio sched0 < 1"
    "step_size_up sched0 = of_int (total_size sched0) * step_ratio sched0"
    "step_size_down sched0 = of_int (total_size sched0) - step_size_up sched0"
    "cycle_momentum sched0"
    "length (base_momentums sched0) = length (param_groups sgd2)"
    "length (max_momentums sched0) = length (param_groups sgd2)"
    by (simp_all add: sched0_def sgd2_def)
  from get_lr_writes_momentum [OF h] obtain lrs opt' where
    r: "get_lr sched0 sgd2 = Inr (lrs, opt')"
       "\<forall>i < length (param_groups sgd2).
           (param_groups opt' ! i) ''momentum'' =
             Some (policy_momentum (base_momentums sched0 ! i) (max_momentums sched0 ! i)
                     (last_epoch sched0) (total_size sched0) (step_ratio sched0)
                     (step_size_up sched0) (step_size_down sched0))"
       "opt' = sgd2 \<longleftrightarrow>
          (\<forall>i < length (param_groups sgd2).
             (param_groups sgd2 ! i) ''momentum'' =
               Some (policy_momentum (base_momentums sched0 ! i) (max_momentums sched0 ! i)
                       (last_epoch sched0) (total_size sched0) (step_ratio sched0)
                       (step_size_up sched0) (step_size_down sched0)))"
    by blast
  have a: "(param_groups opt' ! 0) ''momentum'' = Some (95 / 100)"
    using r(2) [rule_format, of 0]
    by (simp add: sched0_def sgd2_def policy_momentum_def cosine_anneal_def)
  have b: "(param_groups opt' ! 1) ''momentum'' = Some (95 / 100)"
    using r(2) [rule_format, of 1]
    by (simp add: sched0_def sgd2_def policy_momentum_def cosine_anneal_def)
  have c: "(param_groups sgd2 ! 0) ''momentum'' = Some (9 / 10)"
    by (simp add: sgd2_def sgd_group_def)
  have d: "opt' \<noteq> sgd2"
  proof
    assume "opt' = sgd2"
    with a c show False by simp
  qed
  from h r(1) a b c d show ?thesis by blast
qed

section \<open>Monotonicity of the learning rate\<close>

lemma cos_pi_antimono:
  assumes "0 \<le> p" "p \<le> q" "q \<le> (1::real)"
  shows "cos (pi * q) \<le> cos (pi * p)"
proof (rule cos_monotone_0_pi_le)
  show "0 \<le> pi * p" using assms(1) by simp
  show "pi * p \<le> pi * q" using assms(2) by (simp add: mult_left_mono)
  have "pi * q \<le> pi * 1" using assms(3) by (intro mult_left_mono) simp_all
  then show "pi * q \<le> pi" by simp
qed

lemma cosine_anneal_rising:
  assumes "s \<le> e" "0 \<le> p" "p \<le> q" "q \<le> 1"
  shows "cosine_anneal s e p \<le> cosine_anneal s e q"
proof -
  have c: "cos (pi * q) + 1 \<le> cos (pi * p) + 1"
    using cos_pi_antimono [OF assms(2-4)] by simp
  have "(s - e) / 2 \<le> 0" using assms(1) by simp
  from mult_left_mono_neg [OF c this]
  show ?thesis by (simp add: cosine_anneal_def)
qed

lemma cosine_anneal_falling:
  assumes "e \<le> s" "0 \<le> p" "p \<le> q" "q \<le> 1"
  shows "cosine_anneal s e q \<le> cosine_anneal s e p"
proof -
  have c: "cos (pi * q) + 1 \<le> cos (pi * p) + 1"
    using cos_pi_antimono [OF assms(2-4)] by simp
  have "0 \<le> (s - e) / 2" using assms(1) by simp
  from mult_left_mono [OF c this]
  show ?thesis by (simp add: cosine_anneal_def)
qed

lemma policy_lr_up_branch:
  assumes "0 < T" "of_int j \<le> of_int T * p"
  shows "policy_lr b m j T p up down = cosine_anneal b m (of_int j / up)"
proof -
  have T: "0 < (of_int T :: real)" using assms(1) by simp
  have "of_int j / of_int T \<le> p"
    using assms(2) T by (simp add: pos_divide_le_eq mult.commute)
  then show ?thesis by (simp add: policy_lr_def)
qed

lemma policy_lr_down_branch:
  assumes "0 < T" "0 < p" "up = of_int T * p" "up \<le> of_int j"
  shows "policy_lr b m j T p up down = cosine_anneal m b ((of_int j - up) / down)"
proof (cases "of_int j = up")
  case True
  have T: "0 < (of_int T :: real)" using assms(1) by simp
  have up: "0 < up" using T assms(2,3) by simp
  have "policy_lr b m j T p up down = cosine_anneal b m (of_int j / up)"
    using policy_lr_up_branch [OF assms(1), of j p] True assms(3) by simp
  also have "\<dots> = m" using True up by (simp add: cosine_anneal_def)
  also have "m = cosine_anneal m b ((of_int j - up) / down)"
    using True by (simp add: cosine_anneal_def field_simps)
  finally show ?thesis .
next
  case False
  have T: "0 < (of_int T :: real)" using assms(1) by simp
  have "of_int T * p < of_int j" using False assms(3,4) by simp
  then have "\<not> of_int j / of_int T \<le> p"
    using T by (simp add: pos_divide_le_eq mult.commute)
  then show ?thesis by (simp add: policy_lr_def)
qed

lemma policy_lr_rising:
  assumes "0 < T" "0 < p" "up = of_int T * p" "b \<le> m"
    and "0 \<le> j" "j \<le> k" "of_int k \<le> up"
  shows "policy_lr b m j T p up down \<le> policy_lr b m k T p up down"
proof -
  have T: "0 < (of_int T :: real)" using assms(1) by simp
  have up: "0 < up" using T assms(2,3) by simp
  have jk: "(of_int j :: real) \<le> of_int k" using assms(6) by simp
  have ju: "of_int j \<le> up" using jk assms(7) by simp
  have 1: "0 \<le> of_int j / up" using assms(5) up by simp
  have 2: "of_int j / up \<le> of_int k / up" using jk up by (simp add: divide_right_mono)
  have 3: "of_int k / up \<le> 1" using assms(7) up by simp
  show ?thesis
    using cosine_anneal_rising [OF assms(4) 1 2 3]
      policy_lr_up_branch [OF assms(1), of j p b m up down]
      policy_lr_up_branch [OF assms(1), of k p b m up down] ju assms(3,7)
    by simp
qed

lemma policy_lr_falling:
  assumes "0 < T" "0 < p" "p < 1" "up = of_int T * p" "down = of_int T - up" "b \<le> m"
    and "up \<le> of_int j" "j \<le> k" "k \<le> T"
  shows "policy_lr b m k T p up down \<le> policy_lr b m j T p up down"
proof -
  have T: "0 < (of_int T :: real)" using assms(1) by simp
  have "of_int T * p < of_int T * 1" using T assms(3) by (simp only: mult_less_cancel_left_pos)
  then have down: "0 < down" using assms(4,5) by simp
  have jk: "(of_int j :: real) \<le> of_int k" using assms(8) by simp
  have kT: "(of_int k :: real) \<le> of_int T" using assms(9) by simp
  have ku: "up \<le> of_int k" using jk assms(7) by simp
  have 1: "0 \<le> (of_int j - up) / down" using assms(7) down by simp
  have 2: "(of_int j - up) / down \<le> (of_int k - up) / down"
    using jk down by (simp add: divide_right_mono)
  have 3: "(of_int k - up) / down \<le> 1" using kT down assms(5) by simp
  show ?thesis
    using cosine_anneal_falling [OF assms(6) 1 2 3]
      policy_lr_down_branch [OF assms(1,2,4,7), of b m down]
      policy_lr_down_branch [OF assms(1,2,4) ku, of b m down]
    by simp
qed

text \<open>
  C5. For a group \<open>i\<close> with \<open>base_lr[i] < max_lr[i]\<close> and two step indices \<open>j \<le> k\<close>,
  \<^verbatim>\<open>get_lr\<close> returns at both, and the learning rate of the group at \<open>j\<close> is at most the
  one at \<open>k\<close> when both lie between 0 and \<open>step_size_up\<close>, and at least the one at \<open>k\<close>
  when both lie between \<open>step_size_up\<close> and \<open>total_steps\<close>.
\<close>

theorem lr_monotone:
  assumes "0 < total_size self" "0 < step_ratio self" "step_ratio self < 1"
    and "step_size_up self = of_int (total_size self) * step_ratio self"
    and "step_size_down self = of_int (total_size self) - step_size_up self"
    and len: "length (max_lrs self) = length (base_lrs self)"
    and i: "i < length (base_lrs self)"
    and lt: "base_lrs self ! i < max_lrs self ! i"
    and jk: "j \<le> k"
  shows "\<exists>lrs_j lrs_k opt_j opt_k.
       get_lr (self\<lparr>last_epoch := j\<rparr>) opt = Inr (lrs_j, opt_j)
     \<and> get_lr (self\<lparr>last_epoch := k\<rparr>) opt = Inr (lrs_k, opt_k)
     \<and> (0 \<le> j \<and> of_int k \<le> step_size_up self \<longrightarrow> lrs_j ! i \<le> lrs_k ! i)
     \<and> (step_size_up self \<le> of_int j \<and> k \<le> total_size self \<longrightarrow> lrs_k ! i \<le> lrs_j ! i)"
proof -
  note nz = valid_sizes [OF assms(1-5)]
  have nzj: "step_size_up (self\<lparr>last_epoch := j\<rparr>) \<noteq> 0"
    "step_size_down (self\<lparr>last_epoch := j\<rparr>) \<noteq> 0" "total_size (self\<lparr>last_epoch := j\<rparr>) \<noteq> 0"
    using nz by simp_all
  have nzk: "step_size_up (self\<lparr>last_epoch := k\<rparr>) \<noteq> 0"
    "step_size_down (self\<lparr>last_epoch := k\<rparr>) \<noteq> 0" "total_size (self\<lparr>last_epoch := k\<rparr>) \<noteq> 0"
    using nz by simp_all
  have le: "base_lrs self ! i \<le> max_lrs self ! i" using lt by simp
  have up: "0 \<le> j \<and> of_int k \<le> step_size_up self \<longrightarrow>
      policy_lr (base_lrs self ! i) (max_lrs self ! i) j (total_size self) (step_ratio self)
        (step_size_up self) (step_size_down self)
      \<le> policy_lr (base_lrs self ! i) (max_lrs self ! i) k (total_size self) (step_ratio self)
        (step_size_up self) (step_size_down self)"
    using policy_lr_rising [OF assms(1,2,4) le _ jk] by blast
  have down: "step_size_up self \<le> of_int j \<and> k \<le> total_size self \<longrightarrow>
      policy_lr (base_lrs self ! i) (max_lrs self ! i) k (total_size self) (step_ratio self)
        (step_size_up self) (step_size_down self)
      \<le> policy_lr (base_lrs self ! i) (max_lrs self ! i) j (total_size self) (step_ratio self)
        (step_size_up self) (step_size_down self)"
    using policy_lr_falling [OF assms(1-5) le _ jk] by blast
  show ?thesis
    unfolding get_lr_policy [OF nzj, of opt] get_lr_policy [OF nzk, of opt]
    using up down i len by simp
qed

theorem lr_monotone_witness:
  "0 < total_size sched50 \<and> 0 < step_ratio sched50 \<and> step_ratio sched50 < 1
   \<and> step_size_up sched50 = of_int (total_size sched50) * step_ratio sched50
   \<and> step_size_down sched50 = of_int (total_size sched50) - step_size_up sched50
   \<and> length (max_lrs sched50) = length (base_lrs sched50)
   \<and> (0::nat) < length (base_lrs sched50)
   \<and> base_lrs sched50 ! 0 < max_lrs sched50 ! 0
   \<and> (\<exists>lrs10 lrs20 o10 o20.
         get_lr (sched50\<lparr>last_epoch := 10\<rparr>) sgd2 = Inr (lrs10, o10)
       \<and> get_lr (sched50\<lparr>last_epoch := 20\<rparr>) sgd2 = Inr (lrs20, o20)
       \<and> lrs10 ! 0 \<le> lrs20 ! 0)
   \<and> (\<exists>lrs40 lrs60 o40 o60.
         get_lr (sched50\<lparr>last_epoch := 40\<rparr>) sgd2 = Inr (lrs40, o40)
       \<and> get_lr (sched50\<lparr>last_epoch := 60\<rparr>) sgd2 = Inr (lrs60, o60)
       \<and> lrs60 ! 0 \<le> lrs40 ! 0)"
proof -
  have h: "0 < total_size sched50" "0 < step_ratio sched50" "step_ratio sched50 < 1"
    "step_size_up sched50 = of_int (total_size sched50) * step_ratio sched50"
    "step_size_down sched50 = of_int (total_size sched50) - step_size_up sched50"
    "length (max_lrs sched50) = length (base_lrs sched50)"
    "0 < length (base_lrs sched50)"
    "base_lrs sched50 ! 0 < max_lrs sched50 ! 0"
    by (simp_all add: sched50_def)
  have a: "(10::int) \<le> 20" "(0::int) \<le> 10" "of_int 20 \<le> step_size_up sched50"
    by (simp_all add: sched50_def)
  have b: "(40::int) \<le> 60" "step_size_up sched50 \<le> of_int 40" "(60::int) \<le> total_size sched50"
    by (simp_all add: sched50_def)
  from lr_monotone [OF h a(1), of sgd2] a(2,3)
  have 1: "\<exists>lrs10 lrs20 o10 o20.
         get_lr (sched50\<lparr>last_epoch := 10\<rparr>) sgd2 = Inr (lrs10, o10)
       \<and> get_lr (sched50\<lparr>last_epoch := 20\<rparr>) sgd2 = Inr (lrs20, o20)
       \<and> lrs10 ! 0 \<le> lrs20 ! 0"
    by blast
  from lr_monotone [OF h b(1), of sgd2] b(2,3)
  have 2: "\<exists>lrs40 lrs60 o40 o60.
         get_lr (sched50\<lparr>last_epoch := 40\<rparr>) sgd2 = Inr (lrs40, o40)
       \<and> get_lr (sched50\<lparr>last_epoch := 60\<rparr>) sgd2 = Inr (lrs60, o60)
       \<and> lrs60 ! 0 \<le> lrs40 ! 0"
    by blast
  from h 1 2 show ?thesis by blast
qed

section \<open>Construction\<close>

lemma write_field_keeps_missing:
  "g \<in> set gs \<Longrightarrow> g k = None \<Longrightarrow> k \<noteq> k' \<Longrightarrow> \<exists>g' \<in> set (write_field k' vs gs). g' k = None"
proof (induction k' vs gs rule: write_field.induct)
  case (1 k' v vs g0 gs)
  then show ?case by auto
qed auto

lemma init_resume_optimizer:
  assumes "epoch \<noteq> - 1"
    and "OneCycleScheduler_init (Optimizer opt0) max_lr total_steps pct_start div_factor cyc bm mm
           epoch = Inr (self, opt)"
  shows "opt = opt0"
  using assms
  by (auto simp: OneCycleScheduler_init_def LRScheduler_init_def Let_def
        split: sum.splits if_splits)

text \<open>
  C6. A construction that resumes (\<^verbatim>\<open>last_epoch\<close> other than \<open>-1\<close>) and returns hands the
  optimizer back as it received it: no \<^verbatim>\<open>lr\<close> and no \<^verbatim>\<open>momentum\<close> entry is written. The
  base momentums the scheduler keeps are nevertheless the \<^verbatim>\<open>momentum\<close> entries found in the
  groups, one per group and in their order, not the \<^verbatim>\<open>base_momentum\<close> argument.
\<close>

theorem resume_skips_initial_writes:
  assumes "epoch \<noteq> - 1"
    and "OneCycleScheduler_init (Optimizer opt0) max_lr total_steps pct_start div_factor cyc bm mm
           epoch = Inr (self, opt)"
  shows "opt = opt0
     \<and> length (base_momentums self) = length (param_groups opt0)
     \<and> (\<forall>i < length (param_groups opt0).
           (param_groups opt0 ! i) ''momentum'' = Some (base_momentums self ! i))"
proof -
  have o: "opt = opt0" by (rule init_resume_optimizer [OF assms])
  from assms(2) obtain opt0' m where hm: "Optimizer opt0 = Optimizer opt0'" "max_lr = Scalar m"
    by (rule init_args)
  have "read_field ''momentum'' (param_groups opt) = Inr (base_momentums self)"
    using init_fields(10) [OF assms(2) [unfolded hm(2)]] .
  from read_field_nth [OF this] o show ?thesis by simp
qed

theorem resume_skips_initial_writes_witness:
  "(50::int) \<noteq> - 1
   \<and> (\<exists>self. OneCycleScheduler_init (Optimizer sgd2) (Scalar (1 / 10)) 100 (3 / 10) 25 True
         (Scalar (85 / 100)) (Scalar (95 / 100)) 50 = Inr (self, sgd2)
       \<and> base_momentums self = [9 / 10, 9 / 10])"
proof -
  have "\<exists>self opt. OneCycleScheduler_init (Optimizer sgd2) (Scalar (1 / 10)) 100 (3 / 10) 25 True
         (Scalar (85 / 100)) (Scalar (95 / 100)) 50 = Inr (self, opt)"
    by (simp add: OneCycleScheduler_init_def py_truediv_def format_param_def LRScheduler_init_def
          sgd2_def sgd_group_def)
  then obtain self opt where i: "OneCycleScheduler_init (Optimizer sgd2) (Scalar (1 / 10)) 100
         (3 / 10) 25 True (Scalar (85 / 100)) (Scalar (95 / 100)) 50 = Inr (self, opt)"
    by blast
  have ne: "(50::int) \<noteq> - 1" by simp
  from resume_skips_initial_writes [OF ne i]
  have r: "opt = sgd2" "length (base_momentums self) = length (param_groups sgd2)"
    "\<forall>i < length (param_groups sgd2).
           (param_groups sgd2 ! i) ''momentum'' = Some (base_momentums self ! i)"
    by blast+
  have l: "length (base_momentums self) = 2" using r(2) by (simp add: sgd2_def)
  have "base_momentums self ! 0 = 9 / 10" "base_momentums self ! 1 = 9 / 10"
    using r(3) [rule_format, of 0] r(3) [rule_format, of 1]
    by (simp_all add: sgd2_def sgd_group_def)
  with l have "base_momentums self = [9 / 10, 9 / 10]"
    by (cases "base_momentums self"; cases "tl (base_momentums self)") auto
  with i r(1) ne show ?thesis by blast
qed

text \<open>
  C7. With \<^verbatim>\<open>cycle_momentum\<close> set and no \<^verbatim>\<open>momentum\<close> in the \<^verbatim>\<open>defaults\<close> of the optimizer,
  the constructor itself fails, for all other arguments, and the failure is the error for
  unsupported momentum whenever \<^verbatim>\<open>max_lr / div_factor\<close>, which is evaluated before that
  check, has a value: for a scalar \<^verbatim>\<open>max_lr\<close> and a nonzero \<^verbatim>\<open>div_factor\<close>.
\<close>

theorem momentum_unsupported:
  assumes "''momentum'' \<notin> dom (defaults opt0)"
  shows "isl (OneCycleScheduler_init (Optimizer opt0) max_lr total_steps pct_start div_factor
                True bm mm epoch)
     \<and> (div_factor \<noteq> 0 \<longrightarrow>
          OneCycleScheduler_init (Optimizer opt0) (Scalar m) total_steps pct_start div_factor
            True bm mm epoch = Inl MomentumUnsupported)"
proof -
  have 1: "isl (OneCycleScheduler_init (Optimizer opt0) max_lr total_steps pct_start div_factor
                True bm mm epoch)"
    using assms
    by (cases max_lr; cases "div_factor = 0")
       (simp_all add: OneCycleScheduler_init_def py_truediv_def format_param_def Let_def)
  have 2: "OneCycleScheduler_init (Optimizer opt0) (Scalar m) total_steps pct_start div_factor
            True bm mm epoch = Inl MomentumUnsupported" if "div_factor \<noteq> 0"
    using assms that
    by (simp add: OneCycleScheduler_init_def py_truediv_def format_param_def Let_def)
  from 1 2 show ?thesis by blast
qed

theorem momentum_unsupported_witness:
  "''momentum'' \<notin> dom (defaults adam2) \<and> (25::real) \<noteq> 0
   \<and> OneCycleScheduler_init (Optimizer adam2) (Scalar (1 / 10)) 100 (3 / 10) 25 True
        (Scalar (85 / 100)) (Scalar (95 / 100)) (- 1) = Inl MomentumUnsupported"
proof -
  have a: "''momentum'' \<notin> dom (defaults adam2)" by (simp add: adam2_def)
  have b: "(25::real) \<noteq> 0" by simp
  from momentum_unsupported [OF a, of "Scalar (1 / 10)" 100 "3 / 10" 25 "Scalar (85 / 100)"
      "Scalar (95 / 100)" "- 1" "1 / 10"] a b
  show ?thesis by blast
qed

text \<open>
  C9. The constructor reads the \<^verbatim>\<open>momentum\<close> entry of every group also when
  \<^verbatim>\<open>cycle_momentum\<close> is unset: when some group has no such entry, the construction with
  \<^verbatim>\<open>cycle_momentum = False\<close> fails for all other arguments, and for a scalar \<^verbatim>\<open>max_lr\<close>
  and a nonzero \<^verbatim>\<open>div_factor\<close> the failure is the \<^verbatim>\<open>KeyError\<close> of that read.
\<close>

theorem snapshot_read_without_cycling:
  assumes "g \<in> set (param_groups opt0)" "g ''momentum'' = None"
  shows "isl (OneCycleScheduler_init (Optimizer opt0) max_lr total_steps pct_start div_factor
                False bm mm epoch)
     \<and> (div_factor \<noteq> 0 \<longrightarrow>
          OneCycleScheduler_init (Optimizer opt0) (Scalar m) total_steps pct_start div_factor
            False bm mm epoch = Inl (KeyError ''momentum''))"
proof -
  have k: "''momentum'' \<noteq> ''lr''" by simp
  have w: "read_field ''momentum'' (write_field ''lr'' vs (param_groups opt0))
             = Inl (KeyError ''momentum'')" for vs
  proof -
    from write_field_keeps_missing [OF assms k, of vs]
    obtain g' where "g' \<in> set (write_field ''lr'' vs (param_groups opt0))" "g' ''momentum'' = None"
      by blast
    then show ?thesis by (rule read_field_missing)
  qed
  have r: "read_field ''momentum'' (param_groups opt0) = Inl (KeyError ''momentum'')"
    using assms by (rule read_field_missing)
  have 1: "isl (OneCycleScheduler_init (Optimizer opt0) max_lr total_steps pct_start div_factor
                False bm mm epoch)"
    by (simp add: OneCycleScheduler_init_def Let_def w r split: sum.splits)
  have 2: "OneCycleScheduler_init (Optimizer opt0) (Scalar m) total_steps pct_start div_factor
            False bm mm epoch = Inl (KeyError ''momentum'')" if "div_factor \<noteq> 0"
    using that
    by (simp add: OneCycleScheduler_init_def py_truediv_def format_param_def Let_def w r)
  from 1 2 show ?thesis by blast
qed

theorem snapshot_read_without_cycling_witness:
  "adam_group \<in> set (param_groups adam2) \<and> adam_group ''momentum'' = None
   \<and> (25::real) \<noteq> 0
   \<and> OneCycleScheduler_init (Optimizer adam2) (Scalar (1 / 10)) 100 (3 / 10) 25 False
        (Scalar (85 / 100)) (Scalar (95 / 100)) (- 1) = Inl (KeyError ''momentum'')"
proof -
  have a: "adam_group \<in> set (param_groups adam2)" by (simp add: adam2_def)
  have b: "adam_group ''momentum'' = None" by (simp add: adam_group_def)
  have c: "(25::real) \<noteq> 0" by simp
  from snapshot_read_without_cycling [OF a b, of "Scalar (1 / 10)" 100 "3 / 10" 25
      "Scalar (85 / 100)" "Scalar (95 / 100)" "- 1" "1 / 10"] a b c
  show ?thesis by blast
qed

section \<open>Scalar and per-group parameters\<close>

lemma format_param_fits:
  "fits (length (param_groups opt)) p \<Longrightarrow>
     format_param name opt p = Inr (broadcast (length (param_groups opt)) p)"
  by (cases p) (simp_all add: fits_def broadcast_def format_param_def)

lemma format_param_mismatch:
  "length xs \<noteq> length (param_groups opt) \<Longrightarrow>
     format_param name opt (Seq xs) =
       Inl (ParameterCountMismatch (length (param_groups opt)) name (length xs))"
  by (simp add: format_param_def)

lemma length_broadcast: "fits n p \<Longrightarrow> length (broadcast n p) = n"
  by (cases p) (simp_all add: fits_def broadcast_def)

lemma write_field_keeps_present:
  "\<forall>g \<in> set gs. g k \<noteq> None \<Longrightarrow> \<forall>g \<in> set (write_field k' vs gs). g k \<noteq> None"
  by (induction k' vs gs rule: write_field.induct) auto

lemma read_field_present:
  "\<forall>g \<in> set gs. g k \<noteq> None \<Longrightarrow> \<exists>vs. read_field k gs = Inr vs"
  by (induction gs) auto

lemma init_base_momentum_mismatch:
  assumes "div_factor \<noteq> 0" "''momentum'' \<in> dom (defaults opt0)"
    "length xs \<noteq> length (param_groups opt0)"
  shows "OneCycleScheduler_init (Optimizer opt0) (Scalar m) total_steps pct_start div_factor True
           (Seq xs) mm epoch =
         Inl (ParameterCountMismatch (length (param_groups opt0)) ''base_momentum'' (length xs))"
  using assms
  by (auto simp: OneCycleScheduler_init_def py_truediv_def format_param_def Let_def)

lemma init_ignores_base_momentum:
  "OneCycleScheduler_init h max_lr total_steps pct_start div_factor False bm mm epoch =
   OneCycleScheduler_init h max_lr total_steps pct_start div_factor False bm' mm epoch"
  unfolding OneCycleScheduler_init_def if_False ..

lemma format_param_groups_upd:
  "length gs = length (param_groups opt) \<Longrightarrow>
     format_param name (opt\<lparr>param_groups := gs\<rparr>) p = format_param name opt p"
  by (cases p) (simp_all add: format_param_def)

lemma init_reaches_max_momentum:
  assumes d: "div_factor \<noteq> 0"
    and sup: "cyc \<longrightarrow> ''momentum'' \<in> dom (defaults opt0) \<and> fits (length (param_groups opt0)) bm"
    and rd: "cyc \<and> epoch = - 1 \<or> (\<forall>g \<in> set (param_groups opt0). g ''momentum'' \<noteq> None)"
  shows "(\<forall>e. format_param ''max_momentum'' opt0 mm = Inl e \<longrightarrow>
            OneCycleScheduler_init (Optimizer opt0) (Scalar m) total_steps pct_start div_factor
              cyc bm mm epoch = Inl e)
     \<and> (\<forall>mms. format_param ''max_momentum'' opt0 mm = Inr mms \<longrightarrow>
          (\<exists>self opt.
             OneCycleScheduler_init (Optimizer opt0) (Scalar m) total_steps pct_start div_factor
               cyc bm mm epoch = Inr (self, opt)
           \<and> max_lrs self = replicate (length (param_groups opt0)) m
           \<and> max_momentums self = mms
           \<and> (cyc \<and> epoch = - 1 \<longrightarrow>
                base_momentums self = broadcast (length (param_groups opt0)) bm)))"
proof -
  let ?n = "length (param_groups opt0)"
  let ?g1 = "write_field ''lr'' (replicate ?n (m / div_factor)) (param_groups opt0)"
  have fb: "format_param ''base_momentum'' opt0 bm = Inr (broadcast ?n bm)" if cyc
    using sup that by (simp add: format_param_fits)
  have rw: "read_field ''momentum'' (write_field ''momentum'' (broadcast ?n bm) ?g1)
      = Inr (broadcast ?n bm)" if cyc
    using sup that by (intro read_write_field) (simp add: length_broadcast)
  have base: "format_param ''base_lr'' opt0 (Scalar (m / div_factor)) = Inr (replicate ?n (m / div_factor))"
    "format_param ''max_lr'' opt0 (Scalar m) = Inr (replicate ?n m)"
    by (simp_all add: format_param_def)
  show ?thesis
  proof (cases "cyc \<and> epoch = - 1")
    case True
    then show ?thesis
      using d sup fb rw base
      by (auto simp: OneCycleScheduler_init_def py_truediv_def Let_def LRScheduler_init_def
            format_param_groups_upd)
  next
    case False
    with rd have all: "\<forall>g \<in> set (param_groups opt0). g ''momentum'' \<noteq> None" by blast
    from read_field_present [OF all] obtain vs where
      r0: "read_field ''momentum'' (param_groups opt0) = Inr vs" by blast
    from read_field_present [OF write_field_keeps_present [OF all]] obtain ws where
      r1: "read_field ''momentum'' ?g1 = Inr ws" by blast
    show ?thesis
    proof (cases cyc)
      case True
      with False have ne: "epoch \<noteq> - 1" by simp
      show ?thesis
        using d sup True ne fb r0 base
        by (auto simp: OneCycleScheduler_init_def py_truediv_def Let_def LRScheduler_init_def
              format_param_groups_upd)
    next
      case nc: False
      show ?thesis
        using d nc r0 r1 base
        by (auto simp: OneCycleScheduler_init_def py_truediv_def Let_def LRScheduler_init_def
              format_param_groups_upd)
    qed
  qed
qed

text \<open>
  A \<^verbatim>\<open>max_lr\<close> given as a list or a tuple never reaches \<^verbatim>\<open>_format_param\<close>: the division
  \<^verbatim>\<open>max_lr / div_factor\<close> that computes \<^verbatim>\<open>start_lr\<close> raises first, whatever the length.
\<close>

lemma max_lr_sequence_raises:
  "OneCycleScheduler_init (Optimizer opt0) (Seq xs) total_steps pct_start div_factor cyc bm mm
     epoch = Inl TypeError"
  by (simp add: OneCycleScheduler_init_def py_truediv_def)

text \<open>
  C2, as stated, fails: with \<^verbatim>\<open>cycle_momentum\<close> unset, \<^verbatim>\<open>base_momentum\<close> is formatted
  nowhere, so a \<^verbatim>\<open>base_momentum\<close> sequence whose length differs from the number of groups
  is never looked at and the construction succeeds.
\<close>

theorem param_count_counterexample:
  "length [8 / 10 :: real] \<noteq> length (param_groups sgd2)
   \<and> \<not> isl (OneCycleScheduler_init (Optimizer sgd2) (Scalar (1 / 10)) 100 (3 / 10) 25 False
              (Seq [8 / 10]) (Scalar (95 / 100)) (- 1))"
  by (simp add: OneCycleScheduler_init_def py_truediv_def format_param_def LRScheduler_init_def
        sgd2_def sgd_group_def)

text \<open>
  C2, amended. For a scalar \<^verbatim>\<open>max_lr\<close>, which is broadcast to every group, and a nonzero
  \<^verbatim>\<open>div_factor\<close>. With \<^verbatim>\<open>cycle_momentum\<close> set and momentum supported, a \<^verbatim>\<open>base_momentum\<close>
  sequence whose length differs from the number of groups fails with the count mismatch
  naming \<^verbatim>\<open>base_momentum\<close>, the expected and the actual count. \<^verbatim>\<open>max_momentum\<close> is
  formatted with and without cycling, on a fresh start and on a resume, whenever the
  construction gets to it: when cycling, momentum is supported and \<^verbatim>\<open>base_momentum\<close> is a
  scalar or has one entry per group, and every group has a momentum to snapshot, which
  a fresh start with cycling provides by itself. Then a \<^verbatim>\<open>max_momentum\<close> sequence of
  another length fails with the mismatch naming \<^verbatim>\<open>max_momentum\<close> and the two counts, and
  a scalar or a sequence of the right length is accepted: the construction returns, with
  the scalar \<^verbatim>\<open>max_lr\<close> and \<^verbatim>\<open>max_momentum\<close> repeated for every group or taken entry by
  entry, and so is \<^verbatim>\<open>base_momentum\<close> on a fresh start with cycling. With
  \<^verbatim>\<open>cycle_momentum\<close> unset \<^verbatim>\<open>base_momentum\<close> has no influence on the construction.
\<close>

theorem param_count_contract:
  assumes "div_factor \<noteq> 0"
  shows "(''momentum'' \<in> dom (defaults opt0) \<and> length xs \<noteq> length (param_groups opt0) \<longrightarrow>
            OneCycleScheduler_init (Optimizer opt0) (Scalar m) total_steps pct_start div_factor
              True (Seq xs) mm epoch =
            Inl (ParameterCountMismatch (length (param_groups opt0)) ''base_momentum'' (length xs)))
     \<and> ((cyc \<longrightarrow> ''momentum'' \<in> dom (defaults opt0) \<and> fits (length (param_groups opt0)) bm)
          \<and> (cyc \<and> epoch = - 1 \<or> (\<forall>g \<in> set (param_groups opt0). g ''momentum'' \<noteq> None))
          \<longrightarrow>
            (length ys \<noteq> length (param_groups opt0) \<longrightarrow>
               OneCycleScheduler_init (Optimizer opt0) (Scalar m) total_steps pct_start div_factor
                 cyc bm (Seq ys) epoch =
               Inl (ParameterCountMismatch (length (param_groups opt0)) ''max_momentum''
                      (length ys)))
          \<and> (fits (length (param_groups opt0)) mm \<longrightarrow>
               (\<exists>self opt.
                  OneCycleScheduler_init (Optimizer opt0) (Scalar m) total_steps pct_start
                    div_factor cyc bm mm epoch = Inr (self, opt)
                \<and> max_lrs self = replicate (length (param_groups opt0)) m
                \<and> max_momentums self = broadcast (length (param_groups opt0)) mm
                \<and> (cyc \<and> epoch = - 1 \<longrightarrow>
                     base_momentums self = broadcast (length (param_groups opt0)) bm))))
     \<and> OneCycleScheduler_init h max_lr total_steps pct_start div_factor False bm mm epoch =
        OneCycleScheduler_init h max_lr total_steps pct_start div_factor False bm' mm epoch"
proof -
  let ?n = "length (param_groups opt0)"
  have A: "''momentum'' \<in> dom (defaults opt0) \<and> length xs \<noteq> ?n \<longrightarrow>
            OneCycleScheduler_init (Optimizer opt0) (Scalar m) total_steps pct_start div_factor
              True (Seq xs) mm epoch =
            Inl (ParameterCountMismatch ?n ''base_momentum'' (length xs))"
    using init_base_momentum_mismatch [OF assms, of opt0 xs m total_steps pct_start mm epoch]
    by blast
  have B: "OneCycleScheduler_init (Optimizer opt0) (Scalar m) total_steps pct_start div_factor
                 cyc bm (Seq ys) epoch =
               Inl (ParameterCountMismatch ?n ''max_momentum'' (length ys))"
    if "cyc \<longrightarrow> ''momentum'' \<in> dom (defaults opt0) \<and> fits ?n bm"
      "cyc \<and> epoch = - 1 \<or> (\<forall>g \<in> set (param_groups opt0). g ''momentum'' \<noteq> None)"
      "length ys \<noteq> ?n"
    using init_reaches_max_momentum [OF assms that(1,2), of "Seq ys" m total_steps pct_start]
      format_param_mismatch [OF that(3), of "''max_momentum''"]
    by blast
  have C: "\<exists>self opt.
             OneCycleScheduler_init (Optimizer opt0) (Scalar m) total_steps pct_start
               div_factor cyc bm mm epoch = Inr (self, opt)
           \<and> max_lrs self = replicate ?n m
           \<and> max_momentums self = broadcast ?n mm
           \<and> (cyc \<and> epoch = - 1 \<longrightarrow> base_momentums self = broadcast ?n bm)"
    if "cyc \<longrightarrow> ''momentum'' \<in> dom (defaults opt0) \<and> fits ?n bm"
      "cyc \<and> epoch = - 1 \<or> (\<forall>g \<in> set (param_groups opt0). g ''momentum'' \<noteq> None)"
      "fits ?n mm"
    using init_reaches_max_momentum [OF assms that(1,2), of mm m total_steps pct_start]
      format_param_fits [OF that(3), of "''max_momentum''"]
    by blast
  have D: "OneCycleScheduler_init h max_lr total_steps pct_start div_factor False bm mm epoch =
        OneCycleScheduler_init h max_lr total_steps pct_start div_factor False bm' mm epoch"
    by (rule init_ignores_base_momentum)
  from A B C D show ?thesis by blast
qed

theorem param_count_contract_witness:
  "(25::real) \<noteq> 0 \<and> ''momentum'' \<in> dom (defaults sgd2)
   \<and> param_groups sgd2 = [sgd_group, sgd_group] \<and> sgd_group ''momentum'' \<noteq> None
   \<and> fits (length (param_groups sgd2)) (Seq [8 / 10, 85 / 100])
   \<and> fits (length (param_groups sgd2)) (Scalar (95 / 100))
   \<and> fits (length (param_groups sgd2)) (Seq [9 / 10, 95 / 100])
   \<and> OneCycleScheduler_init (Optimizer sgd2) (Scalar (1 / 10)) 100 (3 / 10) 25 True
        (Seq [8 / 10]) (Scalar (95 / 100)) (- 1) =
      Inl (ParameterCountMismatch 2 ''base_momentum'' 1)
   \<and> OneCycleScheduler_init (Optimizer sgd2) (Scalar (1 / 10)) 100 (3 / 10) 25 True
        (Seq [8 / 10, 85 / 100]) (Seq [9 / 10, 9 / 10, 9 / 10]) (- 1) =
      Inl (ParameterCountMismatch 2 ''max_momentum'' 3)
   \<and> OneCycleScheduler_init (Optimizer sgd2) (Scalar (1 / 10)) 100 (3 / 10) 25 True
        (Seq [8 / 10, 85 / 100]) (Seq [9 / 10, 9 / 10, 9 / 10]) 50 =
      Inl (ParameterCountMismatch 2 ''max_momentum'' 3)
   \<and> OneCycleScheduler_init (Optimizer sgd2) (Scalar (1 / 10)) 100 (3 / 10) 25 False
        (Seq [8 / 10]) (Seq [9 / 10, 9 / 10, 9 / 10]) 50 =
      Inl (ParameterCountMismatch 2 ''max_momentum'' 3)
   \<and> (\<exists>self opt.
         OneCycleScheduler_init (Optimizer sgd2) (Scalar (1 / 10)) 100 (3 / 10) 25 True
           (Seq [8 / 10, 85 / 100]) (Scalar (95 / 100)) (- 1) = Inr (self, opt)
       \<and> max_lrs self = [1 / 10, 1 / 10]
       \<and> max_momentums self = [95 / 100, 95 / 100]
       \<and> base_momentums self = [8 / 10, 85 / 100])
   \<and> (\<exists>self opt.
         OneCycleScheduler_init (Optimizer sgd2) (Scalar (1 / 10)) 100 (3 / 10) 25 True
           (Seq [8 / 10, 85 / 100]) (Seq [9 / 10, 95 / 100]) 50 = Inr (self, opt)
       \<and> max_lrs self = [1 / 10, 1 / 10]
       \<and> max_momentums self = [9 / 10, 95 / 100])
   \<and> (\<exists>self opt.
         OneCycleScheduler_init (Optimizer sgd2) (Scalar (1 / 10)) 100 (3 / 10) 25 False
           (Seq [8 / 10]) (Seq [9 / 10, 95 / 100]) (- 1) = Inr (self, opt)
       \<and> max_lrs self = [1 / 10, 1 / 10]
       \<and> max_momentums self = [9 / 10, 95 / 100])
   \<and> OneCycleScheduler_init (Optimizer sgd2) (Scalar (1 / 10)) 100 (3 / 10) 25 False
        (Seq [8 / 10]) (Scalar (95 / 100)) (- 1) =
      OneCycleScheduler_init (Optimizer sgd2) (Scalar (1 / 10)) 100 (3 / 10) 25 False
        (Scalar (85 / 100)) (Scalar (95 / 100)) (- 1)"
proof -
  have d: "(25::real) \<noteq> 0" by simp
  have n: "length (param_groups sgd2) = 2" by (simp add: sgd2_def)
  have s: "''momentum'' \<in> dom (defaults sgd2)" by (simp add: sgd2_def)
  have g: "param_groups sgd2 = [sgd_group, sgd_group]" "sgd_group ''momentum'' \<noteq> None"
    by (simp_all add: sgd2_def sgd_group_def)
  have all: "\<forall>g \<in> set (param_groups sgd2). g ''momentum'' \<noteq> None"
    using g by simp
  have f: "fits (length (param_groups sgd2)) (Seq [8 / 10, 85 / 100])"
    "fits (length (param_groups sgd2)) (Scalar (95 / 100))"
    "fits (length (param_groups sgd2)) (Seq [9 / 10, 95 / 100])"
    by (simp_all add: n fits_def)
  have b: "broadcast 2 (Seq [8 / 10, 85 / 100]) = [8 / 10, 85 / 100]"
    "broadcast 2 (Scalar (95 / 100)) = [95 / 100, 95 / 100]"
    "broadcast 2 (Seq [9 / 10, 95 / 100]) = [9 / 10, 95 / 100]"
    "replicate 2 (1 / 10 :: real) = [1 / 10, 1 / 10]"
    by (simp_all add: broadcast_def numeral_2_eq_2)
  have l: "length [8 / 10 :: real] = 1" "length [9 / 10, 9 / 10, 9 / 10 :: real] = 3"
    "(1::nat) \<noteq> 2" "(3::nat) \<noteq> 2"
    by simp_all
  note fresh = param_count_contract [OF d, where ?opt0.0 = sgd2 and xs = "[8 / 10]"
      and m = "1 / 10" and total_steps = 100 and pct_start = "3 / 10"
      and mm = "Scalar (95 / 100)" and epoch = "- 1" and bm = "Seq [8 / 10, 85 / 100]"
      and ys = "[9 / 10, 9 / 10, 9 / 10]" and h = "Optimizer sgd2"
      and max_lr = "Scalar (1 / 10)" and bm' = "Scalar (85 / 100)" and cyc = True,
      unfolded n b l]
  note resume = param_count_contract [OF d, where ?opt0.0 = sgd2 and xs = "[8 / 10]"
      and m = "1 / 10" and total_steps = 100 and pct_start = "3 / 10"
      and mm = "Seq [9 / 10, 95 / 100]" and epoch = 50 and bm = "Seq [8 / 10, 85 / 100]"
      and ys = "[9 / 10, 9 / 10, 9 / 10]" and h = "Optimizer sgd2"
      and max_lr = "Scalar (1 / 10)" and bm' = "Scalar (85 / 100)" and cyc = True,
      unfolded n b l]
  note plain50 = param_count_contract [OF d, where ?opt0.0 = sgd2 and xs = "[8 / 10]"
      and m = "1 / 10" and total_steps = 100 and pct_start = "3 / 10"
      and mm = "Seq [9 / 10, 95 / 100]" and epoch = 50 and bm = "Seq [8 / 10]"
      and ys = "[9 / 10, 9 / 10, 9 / 10]" and h = "Optimizer sgd2"
      and max_lr = "Scalar (1 / 10)" and bm' = "Scalar (85 / 100)" and cyc = False,
      unfolded n b l]
  note plain = param_count_contract [OF d, where ?opt0.0 = sgd2 and xs = "[8 / 10]"
      and m = "1 / 10" and total_steps = 100 and pct_start = "3 / 10"
      and mm = "Seq [9 / 10, 95 / 100]" and epoch = "- 1" and bm = "Seq [8 / 10]"
      and ys = "[9 / 10, 9 / 10, 9 / 10]" and h = "Optimizer sgd2"
      and max_lr = "Scalar (1 / 10)" and bm' = "Scalar (85 / 100)" and cyc = False,
      unfolded n b l]
  note indep = param_count_contract [OF d, where ?opt0.0 = sgd2 and xs = "[8 / 10]"
      and m = "1 / 10" and total_steps = 100 and pct_start = "3 / 10"
      and mm = "Scalar (95 / 100)" and epoch = "- 1" and bm = "Seq [8 / 10]"
      and ys = "[9 / 10, 9 / 10, 9 / 10]" and h = "Optimizer sgd2"
      and max_lr = "Scalar (1 / 10)" and bm' = "Scalar (85 / 100)" and cyc = False,
      unfolded n b l]
  have f2: "fits 2 (Seq [8 / 10, 85 / 100])" "fits 2 (Scalar (95 / 100))"
    "fits 2 (Seq [9 / 10, 95 / 100])"
    using f unfolding n by simp_all
  have 1: "OneCycleScheduler_init (Optimizer sgd2) (Scalar (1 / 10)) 100 (3 / 10) 25 True
        (Seq [8 / 10]) (Scalar (95 / 100)) (- 1) =
      Inl (ParameterCountMismatch 2 ''base_momentum'' 1)"
    using fresh [THEN conjunct1] s f2 all by simp
  have 2: "OneCycleScheduler_init (Optimizer sgd2) (Scalar (1 / 10)) 100 (3 / 10) 25 True
        (Seq [8 / 10, 85 / 100]) (Seq [9 / 10, 9 / 10, 9 / 10]) (- 1) =
      Inl (ParameterCountMismatch 2 ''max_momentum'' 3)"
    using fresh [THEN conjunct2, THEN conjunct1] s f2 all by simp
  have 3: "OneCycleScheduler_init (Optimizer sgd2) (Scalar (1 / 10)) 100 (3 / 10) 25 True
        (Seq [8 / 10, 85 / 100]) (Seq [9 / 10, 9 / 10, 9 / 10]) 50 =
      Inl (ParameterCountMismatch 2 ''max_momentum'' 3)"
    using resume [THEN conjunct2, THEN conjunct1] s f2 all by simp
  have 4: "OneCycleScheduler_init (Optimizer sgd2) (Scalar (1 / 10)) 100 (3 / 10) 25 False
        (Seq [8 / 10]) (Seq [9 / 10, 9 / 10, 9 / 10]) 50 =
      Inl (ParameterCountMismatch 2 ''max_momentum'' 3)"
    using plain50 [THEN conjunct2, THEN conjunct1] s f2 all by simp
  have 5: "\<exists>self opt.
         OneCycleScheduler_init (Optimizer sgd2) (Scalar (1 / 10)) 100 (3 / 10) 25 True
           (Seq [8 / 10, 85 / 100]) (Scalar (95 / 100)) (- 1) = Inr (self, opt)
       \<and> max_lrs self = [1 / 10, 1 / 10]
       \<and> max_momentums self = [95 / 100, 95 / 100]
       \<and> base_momentums self = [8 / 10, 85 / 100]"
    using fresh [THEN conjunct2, THEN conjunct1] s f2 all by simp
  have 6: "\<exists>self opt.
         OneCycleScheduler_init (Optimizer sgd2) (Scalar (1 / 10)) 100 (3 / 10) 25 True
           (Seq [8 / 10, 85 / 100]) (Seq [9 / 10, 95 / 100]) 50 = Inr (self, opt)
       \<and> max_lrs self = [1 / 10, 1 / 10]
       \<and> max_momentums self = [9 / 10, 95 / 100]"
    using resume [THEN conjunct2, THEN conjunct1] s f2 all by simp
  have 7: "\<exists>self opt.
         OneCycleScheduler_init (Optimizer sgd2) (Scalar (1 / 10)) 100 (3 / 10) 25 False
           (Seq [8 / 10]) (Seq [9 / 10, 95 / 100]) (- 1) = Inr (self, opt)
       \<and> max_lrs self = [1 / 10, 1 / 10]
       \<and> max_momentums self = [9 / 10, 95 / 100]"
    using plain [THEN conjunct2, THEN conjunct1] s f2 all by simp
  have 8: "OneCycleScheduler_init (Optimizer sgd2) (Scalar (1 / 10)) 100 (3 / 10) 25 False
        (Seq [8 / 10]) (Scalar (95 / 100)) (- 1) =
      OneCycleScheduler_init (Optimizer sgd2) (Scalar (1 / 10)) 100 (3 / 10) 25 False
        (Scalar (85 / 100)) (Scalar (95 / 100)) (- 1)"
    using indep [THEN conjunct2, THEN conjunct2] .
  from d s g f 1 2 3 4 5 6 7 8 show ?thesis by blast
qed

section \<open>The single instance of the image-info cache\<close>

lemma load_info_instance:
  "load_info cp r s w = (res, w') \<Longrightarrow> instance_attr w' = instance_attr w"
  by (auto simp: load_info_def split: option.splits sum.splits if_splits)

lemma post_init_instance:
  assumes "instance_attr w = Some c0" "post_init r s w = (eo, w1)"
  shows "\<exists>c. instance_attr w1 = Some c
     \<and> (infos_attr c0 = None \<and> infos_attr c \<noteq> None \<longrightarrow> root_attr c = Some r \<and> split_attr c = Some s)"
proof (cases "makedirs_ok w")
  case False
  with assms show ?thesis by (auto simp: post_init_def Let_def)
next
  case True
  let ?cp = "path_join (home w @ ''/.dl_ext/vision_ext/datasets/kitti/image_info'') (s @ ''.pkl'')"
  let ?w2 = "w\<lparr>instance_attr := Some (c0\<lparr>cache_path_attr := Some ?cp, root_attr := Some r,
                                           split_attr := Some s\<rparr>)\<rparr>"
  obtain res w3 where l: "load_info ?cp r s ?w2 = (res, w3)" by (cases "load_info ?cp r s ?w2")
  from load_info_instance [OF l] have i3: "instance_attr w3 = instance_attr ?w2" .
  show ?thesis
    using assms True l i3
    by (cases res) (auto simp: post_init_def Let_def)
qed

lemma load_image_info_cached:
  "instance_attr w = Some c \<Longrightarrow>
     load_image_info r s i w =
       ((case infos_attr c of None \<Rightarrow> Inl (AttributeError ''infos'')
         | Some infos \<Rightarrow> py_getitem infos i), w)"
  by (simp add: load_image_info_def get_instance_def split: option.splits)

lemma load_image_info_first:
  assumes "instance_attr w = None" "load_image_info r s i w = (res, w1)"
  shows "\<exists>c. instance_attr w1 = Some c
     \<and> (infos_attr c \<noteq> None \<longrightarrow> root_attr c = Some r \<and> split_attr c = Some s)"
proof -
  let ?c0 = "\<lparr>cache_path_attr = None, root_attr = None, split_attr = None, infos_attr = None\<rparr>"
  let ?w0 = "w\<lparr>instance_attr := Some ?c0\<rparr>"
  obtain eo w' where p: "post_init r s ?w0 = (eo, w')" by (cases "post_init r s ?w0")
  have "instance_attr ?w0 = Some ?c0" by simp
  from post_init_instance [OF this p] obtain c where
    c: "instance_attr w' = Some c"
       "infos_attr c \<noteq> None \<longrightarrow> root_attr c = Some r \<and> split_attr c = Some s"
    by auto
  have "w1 = w'"
    using assms p c(1)
    by (auto simp: load_image_info_def get_instance_def Let_def split: option.splits)
  with c show ?thesis by blast
qed

text \<open>
  C8. The first call of \<^verbatim>\<open>load_image_info\<close> in a process, whatever it returns, leaves an
  instance in the class attribute; when that instance has its list of shapes, its root
  and split are those of the first call. Every later call, for any root, split and
  index, returns the entry of that instance's list at the index (or the error of the
  lookup) and changes nothing: other arguments are no error of their own and no other
  cache is consulted.
\<close>

theorem image_info_cache_first_instance:
  assumes "instance_attr w = None"
    and "load_image_info root1 split1 imgid1 w = (res1, w1)"
  shows "\<exists>c. instance_attr w1 = Some c
     \<and> (infos_attr c \<noteq> None \<longrightarrow> root_attr c = Some root1 \<and> split_attr c = Some split1)
     \<and> (\<forall>root2 split2 imgid2.
           load_image_info root2 split2 imgid2 w1 =
             ((case infos_attr c of None \<Rightarrow> Inl (AttributeError ''infos'')
               | Some infos \<Rightarrow> py_getitem infos imgid2), w1))"
proof -
  from load_image_info_first [OF assms] obtain c where
    c: "instance_attr w1 = Some c"
       "infos_attr c \<noteq> None \<longrightarrow> root_attr c = Some root1 \<and> split_attr c = Some split1"
    by blast
  from c load_image_info_cached [OF c(1)] show ?thesis by blast
qed

theorem image_info_cache_first_instance_witness:
  "instance_attr kitti_world = None
   \<and> (\<exists>w1. load_image_info ''/data'' ''training'' 0 kitti_world = (Inr [375, 1242, 3], w1)
        \<and> listing w1 ''/other/object/testing/image_2'' = None
        \<and> load_image_info ''/other'' ''testing'' 1 w1 = (Inr [375, 1243, 3], w1))"
proof -
  have n: "instance_attr kitti_world = None" by (simp add: kitti_world_def)
  obtain res1 w1 where f: "load_image_info ''/data'' ''training'' 0 kitti_world = (res1, w1)"
    by (cases "load_image_info ''/data'' ''training'' 0 kitti_world")
  have ev: "load_image_info ''/data'' ''training'' 0 kitti_world =
      (Inr [375, 1242, 3],
       kitti_world\<lparr>instance_attr :=
           Some \<lparr>cache_path_attr =
                    Some ''/home/u/.dl_ext/vision_ext/datasets/kitti/image_info/training.pkl'',
                  root_attr = Some ''/data'', split_attr = Some ''training'',
                  infos_attr = Some [[375, 1242, 3], [375, 1243, 3]]\<rparr>,
         pickles := [''/home/u/.dl_ext/vision_ext/datasets/kitti/image_info/training.pkl''
                       \<mapsto> Inr [[375, 1242, 3], [375, 1243, 3]]]\<rparr>)"
    by (simp add: load_image_info_def get_instance_def post_init_def load_info_def
          path_join_def py_getitem_def kitti_world_def Let_def upt_rec)
  from image_info_cache_first_instance [OF n f] obtain c where
    c: "instance_attr w1 = Some c"
       "\<forall>root2 split2 imgid2.
           load_image_info root2 split2 imgid2 w1 =
             ((case infos_attr c of None \<Rightarrow> Inl (AttributeError ''infos'')
               | Some infos \<Rightarrow> py_getitem infos imgid2), w1)"
    by blast
  have r: "res1 = Inr [375, 1242, 3]" using f ev by simp
  have i: "infos_attr c = Some [[375, 1242, 3], [375, 1243, 3]]"
    using f ev c(1) by auto
  have l: "listing w1 ''/other/object/testing/image_2'' = None"
    using f ev by (auto simp: kitti_world_def)
  have "load_image_info ''/other'' ''testing'' 1 w1 = (Inr [375, 1243, 3], w1)"
    using c(2) [rule_format, of "''/other''" "''testing''" 1] i
    by (simp add: py_getitem_def)
  with n f r l show ?thesis by blast
qed

end
